theory Spec2Isabelle
  imports Complex_Main
begin

section \<open>Python strings\<close>

text \<open>
  The titles, artist names and plots handled by \<^verbatim>\<open>scraping_worker.py\<close> and
  \<^verbatim>\<open>merge_dialog.py\<close> are Python \<^verbatim>\<open>str\<close> values, sequences of code points.  They
  are modelled as \<^typ>\<open>string\<close>, one \<^typ>\<open>char\<close> per code point, which covers the code
  points from 0 to 255 (ASCII and Latin-1); text with code points beyond 255 is
  outside the model.  On these code points the definitions follow Python:
  \<^item> \<^verbatim>\<open>str.isspace\<close>, which decides what \<^verbatim>\<open>str.strip\<close> removes and what the class
    \<^verbatim>\<open>\s\<close> of a regular expression matches, holds for the code points 9 to 13, 28 to
    32, 133 (next line) and 160 (no-break space);
  \<^item> \<^verbatim>\<open>str.lower\<close> maps \<^verbatim>\<open>A\<close>..\<^verbatim>\<open>Z\<close> and the Latin-1 capitals 192 to 222, except
    the multiplication sign 215, to the code point 32 above, and leaves every other
    code point as it is;
  \<^item> \<^verbatim>\<open>\d\<close> matches the ten ASCII digits.
\<close>

definition is_space :: "char \<Rightarrow> bool" where
  "is_space c = (c \<in> set [CHR 0x20, CHR 0x09, CHR 0x0A, CHR 0x0B, CHR 0x0C, CHR 0x0D,
                          CHR 0x1C, CHR 0x1D, CHR 0x1E, CHR 0x1F, CHR 0x85, CHR 0xA0])"

definition is_digit :: "char \<Rightarrow> bool" where
  "is_digit c = (c \<in> set ''0123456789'')"

definition upper_chars :: "char list" where
  "upper_chars = ''ABCDEFGHIJKLMNOPQRSTUVWXYZ'' @
     [CHR 0xC0, CHR 0xC1, CHR 0xC2, CHR 0xC3, CHR 0xC4, CHR 0xC5, CHR 0xC6, CHR 0xC7,
      CHR 0xC8, CHR 0xC9, CHR 0xCA, CHR 0xCB, CHR 0xCC, CHR 0xCD, CHR 0xCE, CHR 0xCF,
      CHR 0xD0, CHR 0xD1, CHR 0xD2, CHR 0xD3, CHR 0xD4, CHR 0xD5, CHR 0xD6,
      CHR 0xD8, CHR 0xD9, CHR 0xDA, CHR 0xDB, CHR 0xDC, CHR 0xDD, CHR 0xDE]"

definition lower_chars :: "char list" where
  "lower_chars = ''abcdefghijklmnopqrstuvwxyz'' @
     [CHR 0xE0, CHR 0xE1, CHR 0xE2, CHR 0xE3, CHR 0xE4, CHR 0xE5, CHR 0xE6, CHR 0xE7,
      CHR 0xE8, CHR 0xE9, CHR 0xEA, CHR 0xEB, CHR 0xEC, CHR 0xED, CHR 0xEE, CHR 0xEF,
      CHR 0xF0, CHR 0xF1, CHR 0xF2, CHR 0xF3, CHR 0xF4, CHR 0xF5, CHR 0xF6,
      CHR 0xF8, CHR 0xF9, CHR 0xFA, CHR 0xFB, CHR 0xFC, CHR 0xFD, CHR 0xFE]"

definition lower_chr :: "char \<Rightarrow> char" where
  "lower_chr c =
     (case map_of (zip upper_chars lower_chars) c of
        None \<Rightarrow> c
      | Some l \<Rightarrow> l)"

text \<open>\<^verbatim>\<open>s.lower()\<close>\<close>

definition lower :: "string \<Rightarrow> string" where
  "lower s = map lower_chr s"

text \<open>\<^verbatim>\<open>s.strip()\<close>: leading and trailing white space removed.\<close>

definition lstrip :: "string \<Rightarrow> string" where
  "lstrip s = dropWhile is_space s"

definition strip :: "string \<Rightarrow> string" where
  "strip s = rev (dropWhile is_space (rev (dropWhile is_space s)))"

text \<open>\<^verbatim>\<open>s.startswith(p)\<close>\<close>

definition startswith :: "string \<Rightarrow> string \<Rightarrow> bool" where
  "startswith s p = (take (length p) s = p)"

text \<open>\<^verbatim>\<open>sub in s\<close>: \<^verbatim>\<open>sub\<close> occurs in \<^verbatim>\<open>s\<close> as a contiguous slice.\<close>

fun contains :: "string \<Rightarrow> string \<Rightarrow> bool" where
  "contains [] sub = (sub = [])"
| "contains (c # cs) sub = (startswith (c # cs) sub \<or> contains cs sub)"

text \<open>
  \<^verbatim>\<open>s.replace(old, "")\<close>: every occurrence of \<^verbatim>\<open>old\<close> is deleted, scanning from
  the left without overlap.  With an empty \<^verbatim>\<open>old\<close> Python inserts the (empty)
  replacement between the characters, which leaves \<^verbatim>\<open>s\<close> as it is.
\<close>

function remove_all :: "string \<Rightarrow> string \<Rightarrow> string" where
  "remove_all [] old = []"
| "remove_all (c # cs) old =
     (if old \<noteq> [] \<and> startswith (c # cs) old then remove_all (drop (length old) (c # cs)) old
      else c # remove_all cs old)"
  by pat_completeness auto
termination
  by (relation "measure (\<lambda>(s, old). length s)") auto

text \<open>\<^verbatim>\<open>s.split(sep, 1)\<close>: \<^verbatim>\<open>None\<close> when \<^verbatim>\<open>sep\<close> does not occur (the result
  would have one part), otherwise the text before and after its first occurrence.\<close>

fun split_once :: "string \<Rightarrow> string \<Rightarrow> (string \<times> string) option" where
  "split_once [] sep = None"
| "split_once (c # cs) sep =
     (if startswith (c # cs) sep then Some ([], drop (length sep) (c # cs))
      else (case split_once cs sep of
              None \<Rightarrow> None
            | Some (l, r) \<Rightarrow> Some (c # l, r)))"

text \<open>\<^verbatim>\<open>s.split("-")[0]\<close>: the text before the first hyphen.\<close>

definition before_hyphen :: "string \<Rightarrow> string" where
  "before_hyphen s = takeWhile (\<lambda>c. c \<noteq> CHR ''-'') s"

subsection \<open>The regular expressions of the scraper\<close>

text \<open>
  \<^verbatim>\<open>re.sub(r'\s*\(.*?\)', '', query)\<close>.  At a position the pattern matches when the
  run of white space there is followed by an opening parenthesis and a closing one
  comes later with no line break in between (the dot does not match a line break);
  the lazy \<^verbatim>\<open>.*?\<close> stops at the first closing parenthesis.  \<open>match_paren s\<close> is the
  text left after a match at the start of \<open>s\<close>.
\<close>

definition match_paren :: "string \<Rightarrow> string option" where
  "match_paren s =
     (case dropWhile is_space s of
        [] \<Rightarrow> None
      | c # u \<Rightarrow>
          if c = CHR ''('' then
            (case dropWhile (\<lambda>d. d \<noteq> CHR '')'' \<and> d \<noteq> CHR 0x0A) u of
               [] \<Rightarrow> None
             | d # rest \<Rightarrow> if d = CHR '')'' then Some rest else None)
          else None)"

lemma match_paren_shorter: "match_paren s = Some rest \<Longrightarrow> length rest < length s"
proof -
  assume m: "match_paren s = Some rest"
  then obtain c u where cu: "dropWhile is_space s = c # u"
    by (auto simp: match_paren_def split: list.splits)
  with m obtain d where d: "dropWhile (\<lambda>d. d \<noteq> CHR '')'' \<and> d \<noteq> CHR 0x0A) u = d # rest"
    by (auto simp: match_paren_def split: list.splits if_splits)
  have "length (d # rest) \<le> length u"
    unfolding d [symmetric] by (rule length_dropWhile_le)
  moreover have "length (c # u) \<le> length s"
    unfolding cu [symmetric] by (rule length_dropWhile_le)
  ultimately show ?thesis by simp
qed

function strip_parens :: "string \<Rightarrow> string" where
  "strip_parens [] = []"
| "strip_parens (c # cs) =
     (case match_paren (c # cs) of
        Some rest \<Rightarrow> strip_parens rest
      | None \<Rightarrow> c # strip_parens cs)"
  by pat_completeness auto
termination
  by (relation "measure length") (auto dest: match_paren_shorter)

text \<open>\<^verbatim>\<open>re.sub(r'^[\s\-]+', '', s)\<close>: leading white space and hyphens removed.\<close>

definition strip_leading_sep :: "string \<Rightarrow> string" where
  "strip_leading_sep s = dropWhile (\<lambda>c. is_space c \<or> c = CHR ''-'') s"

text \<open>\<^verbatim>\<open>re.match(r"\d{4}-\d{2}-\d{2}", s)\<close>: a match at the start of \<^verbatim>\<open>s\<close>.\<close>

definition match_date :: "string \<Rightarrow> bool" where
  "match_date s =
     (10 \<le> length s \<and> list_all is_digit (take 4 s) \<and> s ! 4 = CHR ''-'' \<and>
      list_all is_digit (take 2 (drop 5 s)) \<and> s ! 7 = CHR ''-'' \<and>
      list_all is_digit (take 2 (drop 8 s)))"

section \<open>\<^verbatim>\<open>difflib.SequenceMatcher\<close>\<close>

text \<open>
  \<^verbatim>\<open>check_similarity\<close> and \<^verbatim>\<open>_clean_discogs_title\<close> score two strings with
  \<^verbatim>\<open>SequenceMatcher(None, a, b).ratio()\<close> of Python's standard library.  The
  definitions below follow \<^verbatim>\<open>difflib.py\<close>, with \<^verbatim>\<open>isjunk = None\<close> (no junk
  characters) and \<^verbatim>\<open>autojunk = True\<close>, the arguments the scraper passes.

  \<^verbatim>\<open>__chain_b\<close>: when \<^verbatim>\<open>b\<close> has 200 characters or more, a character that fills
  more than \<^verbatim>\<open>len(b) // 100 + 1\<close> positions is popular and loses its entry in
  \<^verbatim>\<open>b2j\<close>.
\<close>

definition bpopular :: "string \<Rightarrow> char list" where
  "bpopular b =
     (let n = length b in
      if n \<ge> 200 then filter (\<lambda>elt. count_list b elt > n div 100 + 1) (remdups b)
      else [])"

text \<open>\<^verbatim>\<open>b2j.get(elt, [])\<close>: the positions of \<^verbatim>\<open>elt\<close> in \<^verbatim>\<open>b\<close>, in increasing order.\<close>

definition b2j :: "string \<Rightarrow> char \<Rightarrow> nat list" where
  "b2j b elt =
     (if elt \<in> set (bpopular b) then []
      else filter (\<lambda>j. b ! j = elt) [0..<length b])"

text \<open>
  The state of the search in \<^verbatim>\<open>find_longest_match\<close>: \<^verbatim>\<open>besti\<close>, \<^verbatim>\<open>bestj\<close>,
  \<^verbatim>\<open>bestsize\<close> and the dictionary under construction.  A dictionary read only
  through \<^verbatim>\<open>get(j, 0)\<close> is a function that is 0 outside its keys.
\<close>

type_synonym flm_state = "nat \<times> nat \<times> nat \<times> (nat \<Rightarrow> nat)"

text \<open>The body of the inner loop, for one \<^verbatim>\<open>j\<close> with \<^verbatim>\<open>a[i] == b[j]\<close>;
  \<^verbatim>\<open>j2lenget(j-1, 0)\<close> is 0 at \<^verbatim>\<open>j = 0\<close>, where the key would be \<^verbatim>\<open>-1\<close>.\<close>

definition flm_inner :: "(nat \<Rightarrow> nat) \<Rightarrow> nat \<Rightarrow> nat \<Rightarrow> flm_state \<Rightarrow> flm_state" where
  "flm_inner j2len i j st =
     (case st of (besti, bestj, bestsize, newj2len) \<Rightarrow>
        let k = (if j = 0 then 0 else j2len (j - 1)) + 1;
            newj2len' = newj2len(j := k)
        in if k > bestsize then (i + 1 - k, j + 1 - k, k, newj2len')
           else (besti, bestj, bestsize, newj2len'))"

text \<open>The body of the outer loop, for one \<^verbatim>\<open>i\<close>: the positions below \<^verbatim>\<open>blo\<close> are
  skipped and the loop breaks at the first one from \<^verbatim>\<open>bhi\<close> on.\<close>

definition flm_outer :: "string \<Rightarrow> string \<Rightarrow> nat \<Rightarrow> nat \<Rightarrow> nat \<Rightarrow> flm_state \<Rightarrow> flm_state" where
  "flm_outer a b blo bhi i st =
     (case st of (besti, bestj, bestsize, j2len) \<Rightarrow>
        fold (flm_inner j2len i)
             (filter (\<lambda>j. blo \<le> j) (takeWhile (\<lambda>j. j < bhi) (b2j b (a ! i))))
             (besti, bestj, bestsize, (\<lambda>_. 0)))"

text \<open>The two loops that extend the best block at each end.  With no junk
  characters the test \<^verbatim>\<open>not isbjunk(...)\<close> is true, and the two loops after them,
  which extend by junk only, do nothing.\<close>

function extend_left :: "string \<Rightarrow> string \<Rightarrow> nat \<Rightarrow> nat \<Rightarrow> nat \<times> nat \<times> nat \<Rightarrow> nat \<times> nat \<times> nat" where
  "extend_left a b alo blo (besti, bestj, bestsize) =
     (if besti > alo \<and> bestj > blo \<and> a ! (besti - 1) = b ! (bestj - 1)
      then extend_left a b alo blo (besti - 1, bestj - 1, bestsize + 1)
      else (besti, bestj, bestsize))"
  by pat_completeness auto
termination
  by (relation "measure (\<lambda>(a, b, alo, blo, besti, bestj, bestsize). besti)") auto

declare extend_left.simps [simp del]

function extend_right :: "string \<Rightarrow> string \<Rightarrow> nat \<Rightarrow> nat \<Rightarrow> nat \<times> nat \<times> nat \<Rightarrow> nat \<times> nat \<times> nat" where
  "extend_right a b ahi bhi (besti, bestj, bestsize) =
     (if besti + bestsize < ahi \<and> bestj + bestsize < bhi \<and>
         a ! (besti + bestsize) = b ! (bestj + bestsize)
      then extend_right a b ahi bhi (besti, bestj, bestsize + 1)
      else (besti, bestj, bestsize))"
  by pat_completeness auto
termination
  by (relation "measure (\<lambda>(a, b, ahi, bhi, besti, bestj, bestsize). ahi - (besti + bestsize))") auto

declare extend_right.simps [simp del]

definition find_longest_match :: "string \<Rightarrow> string \<Rightarrow> nat \<Rightarrow> nat \<Rightarrow> nat \<Rightarrow> nat \<Rightarrow> nat \<times> nat \<times> nat" where
  "find_longest_match a b alo ahi blo bhi =
     (case fold (flm_outer a b blo bhi) [alo..<ahi] (alo, blo, 0, (\<lambda>_. 0)) of
        (besti, bestj, bestsize, j2len) \<Rightarrow>
          extend_right a b ahi bhi (extend_left a b alo blo (besti, bestj, bestsize)))"

text \<open>
  The block that \<^verbatim>\<open>find_longest_match\<close> returns lies in \<^verbatim>\<open>a[alo:ahi]\<close>; this is
  what makes the loop of \<^verbatim>\<open>get_matching_blocks\<close> stop.  The invariant of the outer
  loop, before the row \<open>i\<close>: the best block ends before \<open>i\<close>, and no block ending
  in the previous row is longer than the rows seen.
\<close>

definition flm_inv :: "nat \<Rightarrow> nat \<Rightarrow> flm_state \<Rightarrow> bool" where
  "flm_inv alo i st = (case st of (besti, bestj, bestsize, j2len) \<Rightarrow>
      alo \<le> besti \<and> besti + bestsize \<le> i \<and> (\<forall>j. j2len j \<le> i - alo))"

lemma flm_inner_inv:
  assumes "alo \<le> i" "\<forall>j. j2len j \<le> i - alo"
      "alo \<le> besti" "besti + bestsize \<le> Suc i" "\<forall>j. new j \<le> Suc i - alo"
      "flm_inner j2len i j (besti, bestj, bestsize, new) = (besti', bestj', bestsize', new')"
  shows "alo \<le> besti' \<and> besti' + bestsize' \<le> Suc i \<and> (\<forall>j. new' j \<le> Suc i - alo)"
proof -
  define k where "k = (if j = 0 then 0 else j2len (j - 1)) + 1"
  have "(if j = 0 then 0 else j2len (j - 1)) \<le> i - alo"
    using assms(2) by simp
  then have k: "k \<le> Suc i - alo" "0 < k"
    using assms(1) by (simp_all add: k_def)
  have eq: "flm_inner j2len i j (besti, bestj, bestsize, new) =
      (if k > bestsize then (i + 1 - k, j + 1 - k, k, new(j := k))
       else (besti, bestj, bestsize, new(j := k)))"
    by (simp add: flm_inner_def k_def Let_def)
  show ?thesis
  proof (cases "k > bestsize")
    case True
    with assms(6) eq have "besti' = i + 1 - k" "bestsize' = k" "new' = new(j := k)"
      by auto
    with k assms(1,5) show ?thesis by auto
  next
    case False
    with assms(6) eq have "besti' = besti" "bestsize' = bestsize" "new' = new(j := k)"
      by auto
    with k assms(3,4,5) show ?thesis by auto
  qed
qed

lemma flm_inner_fold_inv:
  assumes "alo \<le> i" "\<forall>j. j2len j \<le> i - alo"
  shows "alo \<le> besti \<Longrightarrow> besti + bestsize \<le> Suc i \<Longrightarrow> (\<forall>j. new j \<le> Suc i - alo) \<Longrightarrow>
      fold (flm_inner j2len i) js (besti, bestj, bestsize, new) = (besti', bestj', bestsize', new') \<Longrightarrow>
      alo \<le> besti' \<and> besti' + bestsize' \<le> Suc i \<and> (\<forall>j. new' j \<le> Suc i - alo)"
proof (induction js arbitrary: besti bestj bestsize new)
  case Nil
  then show ?case by simp
next
  case (Cons j js)
  obtain bi bj bs nw where st: "flm_inner j2len i j (besti, bestj, bestsize, new) = (bi, bj, bs, nw)"
    by (cases "flm_inner j2len i j (besti, bestj, bestsize, new)") auto
  from flm_inner_inv [OF assms Cons.prems(1,2,3) st]
  have "alo \<le> bi" "bi + bs \<le> Suc i" "\<forall>j. nw j \<le> Suc i - alo" by auto
  from Cons.IH [OF this] Cons.prems(4) st show ?case by simp
qed

lemma flm_outer_inv:
  assumes "alo \<le> i" "flm_inv alo i st"
  shows "flm_inv alo (Suc i) (flm_outer a b blo bhi i st)"
proof -
  obtain besti bestj bestsize j2len where st: "st = (besti, bestj, bestsize, j2len)"
    by (cases st) auto
  obtain bi bj bs nw where r: "flm_outer a b blo bhi i st = (bi, bj, bs, nw)"
    by (cases "flm_outer a b blo bhi i st") auto
  from assms(2) st have a: "alo \<le> besti" "besti + bestsize \<le> Suc i" "\<forall>j. j2len j \<le> i - alo"
    by (auto simp: flm_inv_def)
  have "alo \<le> bi \<and> bi + bs \<le> Suc i \<and> (\<forall>j. nw j \<le> Suc i - alo)"
    by (rule flm_inner_fold_inv [OF assms(1) a(3) a(1) a(2) _ r [unfolded st flm_outer_def prod.case]]) simp
  then show ?thesis by (simp add: r flm_inv_def)
qed

lemma flm_outer_fold_inv:
  "alo \<le> i \<Longrightarrow> flm_inv alo i st \<Longrightarrow>
     flm_inv alo (i + n) (fold (flm_outer a b blo bhi) [i..<i + n] st)"
proof (induction n arbitrary: i st)
  case 0
  then show ?case by simp
next
  case (Suc n)
  have "[i..<i + Suc n] = i # [Suc i..<Suc i + n]"
    by (simp add: upt_rec)
  moreover have "flm_inv alo (Suc i + n) (fold (flm_outer a b blo bhi) [Suc i..<Suc i + n] (flm_outer a b blo bhi i st))"
    by (rule Suc.IH) (use Suc.prems in \<open>auto intro: flm_outer_inv\<close>)
  ultimately show ?case by simp
qed

lemma extend_left_inv:
  "alo \<le> besti \<Longrightarrow> extend_left a b alo blo (besti, bestj, bestsize) = (i, j, k) \<Longrightarrow>
     alo \<le> i \<and> i + k = besti + bestsize"
proof (induction a b alo blo "(besti, bestj, bestsize)" arbitrary: besti bestj bestsize rule: extend_left.induct)
  case (1 a b alo blo besti bestj bestsize)
  show ?case
  proof (cases "besti > alo \<and> bestj > blo \<and> a ! (besti - 1) = b ! (bestj - 1)")
    case True
    with "1.prems"(2) have "extend_left a b alo blo (besti - 1, bestj - 1, bestsize + 1) = (i, j, k)"
      by (simp add: extend_left.simps [of a b alo blo besti])
    moreover from True have "alo \<le> besti - 1" by auto
    ultimately have "alo \<le> i \<and> i + k = besti - 1 + (bestsize + 1)"
      using True by (intro "1.hyps") auto
    with True show ?thesis by simp
  next
    case False
    with "1.prems" show ?thesis by (auto simp: extend_left.simps [of a b alo blo besti])
  qed
qed

lemma extend_right_inv:
  "extend_right a b ahi bhi (besti, bestj, bestsize) = (i, j, k) \<Longrightarrow>
     i = besti \<and> (k = bestsize \<or> i + k \<le> ahi)"
proof (induction a b ahi bhi "(besti, bestj, bestsize)" arbitrary: besti bestj bestsize rule: extend_right.induct)
  case (1 a b ahi bhi besti bestj bestsize)
  show ?case
  proof (cases "besti + bestsize < ahi \<and> bestj + bestsize < bhi \<and> a ! (besti + bestsize) = b ! (bestj + bestsize)")
    case True
    with "1.prems" have "extend_right a b ahi bhi (besti, bestj, bestsize + 1) = (i, j, k)"
      by (simp add: extend_right.simps [of a b ahi bhi besti])
    from "1.hyps" [OF True this] True show ?thesis by auto
  next
    case False
    with "1.prems" show ?thesis by (auto simp: extend_right.simps [of a b ahi bhi besti])
  qed
qed

lemma find_longest_match_bounds:
  assumes "find_longest_match a b alo ahi blo bhi = (i, j, k)"
  shows "alo \<le> i \<and> (0 < k \<longrightarrow> i + k \<le> ahi)"
proof -
  obtain bi bj bs j2len where f: "fold (flm_outer a b blo bhi) [alo..<ahi] (alo, blo, 0, (\<lambda>_. 0)) = (bi, bj, bs, j2len)"
    by (cases "fold (flm_outer a b blo bhi) [alo..<ahi] (alo, blo, 0, (\<lambda>_. 0::nat))") auto
  obtain i1 j1 k1 where l: "extend_left a b alo blo (bi, bj, bs) = (i1, j1, k1)"
    by (cases "extend_left a b alo blo (bi, bj, bs)") auto
  from assms f l have r: "extend_right a b ahi bhi (i1, j1, k1) = (i, j, k)"
    by (simp add: find_longest_match_def)
  show ?thesis
  proof (cases "alo \<le> ahi")
    case True
    then obtain n where n: "ahi = alo + n" using le_Suc_ex by blast
    have inv0: "flm_inv alo alo (alo, blo, 0, (\<lambda>_. 0))" by (simp add: flm_inv_def)
    from flm_outer_fold_inv [OF le_refl inv0, of n a b blo bhi] f n
    have b: "alo \<le> bi" "bi + bs \<le> ahi" by (simp_all add: flm_inv_def)
    from extend_left_inv [OF b(1) l] b(2) have l': "alo \<le> i1" "i1 + k1 \<le> ahi" by auto
    from extend_right_inv [OF r] l' show ?thesis by auto
  next
    case False
    with f have "bi = alo" "bs = 0" by simp_all
    with l have "i1 = alo" "k1 = 0" by (simp_all add: extend_left.simps [of a b alo blo alo])
    with r False have "i = alo" "k = 0" by (simp_all add: extend_right.simps [of a b ahi bhi alo])
    then show ?thesis by simp
  qed
qed

text \<open>
  \<^verbatim>\<open>get_matching_blocks\<close>.  The loop takes a region from the queue, records its
  longest block and queues the regions at its left and at its right; the list is
  sorted afterwards.  Each region is settled on its own, so the sorted list is the
  blocks of the left region, the block, the blocks of the right region.
\<close>

function matching_blocks :: "string \<Rightarrow> string \<Rightarrow> nat \<Rightarrow> nat \<Rightarrow> nat \<Rightarrow> nat \<Rightarrow> (nat \<times> nat \<times> nat) list" where
  "matching_blocks a b alo ahi blo bhi =
     (case find_longest_match a b alo ahi blo bhi of (i, j, k) \<Rightarrow>
        if k \<noteq> 0 then
          (if alo < i \<and> blo < j then matching_blocks a b alo i blo j else []) @
          [(i, j, k)] @
          (if i + k < ahi \<and> j + k < bhi then matching_blocks a b (i + k) ahi (j + k) bhi else [])
        else [])"
  by pat_completeness auto
termination
proof (relation "measure (\<lambda>(a, b, alo, ahi, blo, bhi). ahi - alo)")
  show "wf (measure (\<lambda>(a, b, alo, ahi, blo, bhi). ahi - alo))" by simp
next
  fix a b :: string and alo ahi blo bhi i j k :: nat and y :: "nat \<times> nat"
  assume "(i, y) = find_longest_match a b alo ahi blo bhi" "(j, k) = y" "k \<noteq> 0"
    and lt: "alo < i \<and> blo < j"
  then have "find_longest_match a b alo ahi blo bhi = (i, j, k)" by simp
  from find_longest_match_bounds [OF this] \<open>k \<noteq> 0\<close> lt
  show "((a, b, alo, i, blo, j), (a, b, alo, ahi, blo, bhi))
          \<in> measure (\<lambda>(a, b, alo, ahi, blo, bhi). ahi - alo)" by auto
next
  fix a b :: string and alo ahi blo bhi i j k :: nat and y :: "nat \<times> nat"
  assume "(i, y) = find_longest_match a b alo ahi blo bhi" "(j, k) = y" "k \<noteq> 0"
    and lt: "i + k < ahi \<and> j + k < bhi"
  then have "find_longest_match a b alo ahi blo bhi = (i, j, k)" by simp
  from find_longest_match_bounds [OF this] \<open>k \<noteq> 0\<close> lt
  show "((a, b, i + k, ahi, j + k, bhi), (a, b, alo, ahi, blo, bhi))
          \<in> measure (\<lambda>(a, b, alo, ahi, blo, bhi). ahi - alo)" by auto
qed

declare matching_blocks.simps [simp del]

text \<open>The second loop of \<^verbatim>\<open>get_matching_blocks\<close> merges adjacent blocks; \<open>(i1, j1, k1)\<close>
  is the block being grown.\<close>

fun non_adjacent :: "nat \<times> nat \<times> nat \<Rightarrow> (nat \<times> nat \<times> nat) list \<Rightarrow> (nat \<times> nat \<times> nat) list" where
  "non_adjacent (i1, j1, k1) [] = (if k1 \<noteq> 0 then [(i1, j1, k1)] else [])"
| "non_adjacent (i1, j1, k1) ((i2, j2, k2) # blocks) =
     (if i1 + k1 = i2 \<and> j1 + k1 = j2 then non_adjacent (i1, j1, k1 + k2) blocks
      else (if k1 \<noteq> 0 then [(i1, j1, k1)] else []) @ non_adjacent (i2, j2, k2) blocks)"

definition get_matching_blocks :: "string \<Rightarrow> string \<Rightarrow> (nat \<times> nat \<times> nat) list" where
  "get_matching_blocks a b =
     non_adjacent (0, 0, 0) (matching_blocks a b 0 (length a) 0 (length b)) @
     [(length a, length b, 0)]"

text \<open>
  \<^verbatim>\<open>_calculate_ratio\<close> and \<^verbatim>\<open>ratio\<close>.  Python computes \<^verbatim>\<open>2.0 * matches / length\<close> in
  double precision; the model keeps the exact quotient.  The scraper only compares
  the score with the constants 0.7 and 0.75, and the nearest double of a quotient of
  two integers lies on the same side of those constants as the quotient itself as
  long as the two strings have fewer than \<open>10\<^sup>1\<^sup>4\<close> characters together.
\<close>

definition calculate_ratio :: "nat \<Rightarrow> nat \<Rightarrow> rat" where
  "calculate_ratio matches len = (if len \<noteq> 0 then 2 * of_nat matches / of_nat len else 1)"

definition ratio :: "string \<Rightarrow> string \<Rightarrow> rat" where
  "ratio a b =
     calculate_ratio (sum_list (map (\<lambda>(i, j, k). k) (get_matching_blocks a b)))
                     (length a + length b)"

section \<open>The similarity scorer\<close>

text \<open>
  \<^verbatim>\<open>check_similarity(self, query, result, artist=None)\<close>.  The query title and the
  artist are strings of the caller; the candidate title comes from a provider's
  reply and may be \<^verbatim>\<open>None\<close>.  The two normalised strings are definitions of their
  own, \<open>clean_query\<close> and \<open>clean_result\<close>.
\<close>

definition remove_artist :: "string \<Rightarrow> string \<Rightarrow> string" where
  "remove_artist artist s =
     (let artist_lower = strip (lower artist)
      in strip_leading_sep (strip (remove_all s artist_lower)))"

definition clean_query :: "string \<Rightarrow> string option \<Rightarrow> string" where
  "clean_query query artist =
     (let cq = strip (lower (strip_parens query))
      in case artist of
           None \<Rightarrow> cq
         | Some a \<Rightarrow> if a \<noteq> [] then remove_artist a cq else cq)"

definition clean_result :: "string \<Rightarrow> string option \<Rightarrow> string" where
  "clean_result result artist =
     (let cr = strip (lower result)
      in case artist of
           None \<Rightarrow> cr
         | Some a \<Rightarrow> if a \<noteq> [] then remove_artist a cr else cr)"

definition check_similarity :: "string \<Rightarrow> string option \<Rightarrow> string option \<Rightarrow> rat" where
  "check_similarity query result artist =
     (case result of
        None \<Rightarrow> 0
      | Some r \<Rightarrow>
          if query = [] \<or> r = [] then 0
          else
            let cq = clean_query query artist;
                cr = clean_result r artist
            in if cq \<noteq> [] \<and> cr \<noteq> [] \<and> (contains cr cq \<or> contains cq cr) then 1
               else ratio cq cr)"

section \<open>Values, dictionaries and the outside world\<close>

text \<open>
  The metadata records of the scraper and the JSON objects of the providers are
  Python dictionaries from field names to values.  A value is \<^verbatim>\<open>None\<close>, a Boolean
  or a string; a dictionary is a map, a missing key being \<open>None\<close> of the map.
\<close>

datatype pyval = VNone | VBool bool | VStr string

type_synonym pydict = "string \<rightharpoonup> pyval"

datatype exn = TypeError | AttributeError | KeyError | IndexError

text \<open>The truth value of \<^verbatim>\<open>if v:\<close> and \<^verbatim>\<open>not v\<close>.\<close>

fun truthy :: "pyval \<Rightarrow> bool" where
  "truthy VNone = False"
| "truthy (VBool b) = b"
| "truthy (VStr s) = (s \<noteq> [])"

text \<open>\<^verbatim>\<open>d.get(k)\<close> and \<^verbatim>\<open>d.get(k, default)\<close>\<close>

definition dget_or :: "pydict \<Rightarrow> string \<Rightarrow> pyval \<Rightarrow> pyval" where
  "dget_or d k dflt = (case d k of None \<Rightarrow> dflt | Some v \<Rightarrow> v)"

definition dget :: "pydict \<Rightarrow> string \<Rightarrow> pyval" where
  "dget d k = dget_or d k VNone"

text \<open>\<^verbatim>\<open>a or b\<close>\<close>

definition py_or :: "pyval \<Rightarrow> pyval \<Rightarrow> pyval" where
  "py_or a b = (if truthy a then a else b)"

text \<open>\<^verbatim>\<open>str(v)\<close>, also the rendering of \<^verbatim>\<open>{v}\<close> in an f-string.\<close>

fun py_str :: "pyval \<Rightarrow> string" where
  "py_str VNone = ''None''"
| "py_str (VBool b) = (if b then ''True'' else ''False'')"
| "py_str (VStr s) = s"

text \<open>The decimal digits of \<^verbatim>\<open>{count}\<close> in an f-string.\<close>

function str_of_nat :: "nat \<Rightarrow> string" where
  "str_of_nat n =
     (if n < 10 then [''0123456789'' ! n]
      else str_of_nat (n div 10) @ [''0123456789'' ! (n mod 10)])"
  by pat_completeness auto
termination
  by (relation "measure id") auto

declare str_of_nat.simps [simp del]

text \<open>
  What the network answers.  \<open>Failure\<close> stands for every answer on which the
  adapter leaves its \<^verbatim>\<open>try\<close> block by an exception or without a result: a transport
  error, a status that \<^verbatim>\<open>raise_for_status\<close> rejects (for the setlist service also
  404), a body that is not JSON, or JSON of another shape than the one the adapter
  reads.  \<open>Reply\<close> carries the part of the decoded body the adapter reads.

  The providers are functions of the requests; the first argument is the number of
  events logged before the request, so that a provider may answer a repeated request
  differently.
\<close>

datatype 'a reply = Failure | Reply 'a

datatype provider = TMDB | TheAudioDB | Discogs | FanartTV | SetlistFM | Wikipedia

datatype adapter = Fetch_tmdb_data | Fetch_theaudiodb_data | Fetch_discogs_data
  | Fetch_fanart_data | Fetch_setlistfm_by_date | Fetch_setlistfm_by_tour

text \<open>The log: \<open>Call f\<close> when the adapter method \<open>f\<close> is entered, \<open>Request p\<close> when
  an HTTP request is sent to the provider \<open>p\<close>.\<close>

datatype event = Call adapter | Request provider

type_synonym log = "event list"

text \<open>The body of a Fanart.tv answer: the \<^verbatim>\<open>url\<close> entries of the three image lists
  that \<^verbatim>\<open>fetch_fanart_data\<close> reads.\<close>

record fanart_body =
  musicbanner :: "pyval list"
  artistthumb :: "pyval list"
  artistbackground :: "pyval list"

text \<open>The first setlist of a setlist.fm answer: the name of its tour, if it has one,
  and the names of the songs of each of its sets.\<close>

record setlist_body =
  tour :: "string option"
  sets :: "string list list"

text \<open>The parameters of a setlist search: \<^verbatim>\<open>date\<close>, or \<^verbatim>\<open>tourName\<close> and an optional
  \<^verbatim>\<open>year\<close>.\<close>

datatype setlist_params = By_date string | By_tour string "string option"

record world =
  tmdb_api :: "nat \<Rightarrow> string \<Rightarrow> string \<Rightarrow> pydict list reply"
  tadb_api :: "nat \<Rightarrow> string \<Rightarrow> string \<Rightarrow> string \<Rightarrow> pydict list reply"
  discogs_api :: "nat \<Rightarrow> string \<Rightarrow> string \<Rightarrow> string \<Rightarrow> (pydict \<times> string list) list reply"
  fanart_api :: "nat \<Rightarrow> string \<Rightarrow> string \<Rightarrow> fanart_body reply"
  setlist_api :: "nat \<Rightarrow> string \<Rightarrow> string \<Rightarrow> setlist_params \<Rightarrow> setlist_body list reply"
  wikipedia_available :: bool
  wiki_api :: "nat \<Rightarrow> string \<Rightarrow> string option reply"

text \<open>The credentials that \<^verbatim>\<open>run\<close> and \<^verbatim>\<open>search_global\<close> read from the configuration
  into the worker.  An absent credential is the empty string (\<^verbatim>\<open>None\<close> and \<^verbatim>\<open>""\<close> are
  both false in the tests of the worker).\<close>

record keys =
  tmdb_key :: string
  fanart_api_key :: string
  discogs_key :: string
  discogs_secret :: string
  setlistfm_key :: string
  tadb_key :: string

section \<open>Provider adapters\<close>

text \<open>The candidate title as \<^verbatim>\<open>check_similarity\<close> sees it: a false value takes the
  first \<^verbatim>\<open>return 0.0\<close>, a true value that is no string has no \<^verbatim>\<open>lower\<close>.\<close>

fun similarity :: "string \<Rightarrow> pyval \<Rightarrow> string \<Rightarrow> exn + rat" where
  "similarity title (VStr found) artist = Inr (check_similarity title (Some found) (Some artist))"
| "similarity title VNone artist = Inr (check_similarity title None (Some artist))"
| "similarity title (VBool b) artist =
     (if b then Inl AttributeError else Inr (check_similarity title None (Some artist)))"

text \<open>\<^verbatim>\<open>except Exception: ... return None\<close>\<close>

definition or_none :: "exn + 'a option \<Rightarrow> 'a option" where
  "or_none r = (case r of Inl e \<Rightarrow> None | Inr v \<Rightarrow> v)"

definition API_IMG_BASE :: string where
  "API_IMG_BASE = ''https://image.tmdb.org/t/p/original''"

text \<open>\<^verbatim>\<open>fetch_tmdb_data\<close>, from \<^verbatim>\<open>movie = data["results"][0]\<close> on.\<close>

definition tmdb_record :: "string \<Rightarrow> string \<Rightarrow> pydict \<Rightarrow> exn + pydict option" where
  "tmdb_record artist title movie =
     (let found_title = dget_or movie ''title'' (VStr '''')
      in case similarity title found_title artist of
           Inl e \<Rightarrow> Inl e
         | Inr sim_score \<Rightarrow>
             if sim_score < 7 / 10 then Inr None
             else
               let poster_path = dget movie ''poster_path'';
                   backdrop_path = dget movie ''backdrop_path'';
                   poster_url = (if truthy poster_path then API_IMG_BASE @ py_str poster_path else '''');
                   fanart_url = (if truthy backdrop_path then API_IMG_BASE @ py_str backdrop_path else '''')
               in case dget_or movie ''release_date'' (VStr '''') of
                    VStr release_date \<Rightarrow>
                      Inr (Some (map_of
                        [(''is_concert'', VBool True),
                         (''title'', found_title),
                         (''artist'', VStr artist),
                         (''album'', VStr ''''),
                         (''plot'', dget_or movie ''overview'' (VStr '''')),
                         (''year'', VStr (before_hyphen release_date)),
                         (''director'', VStr ''''),
                         (''genre'', VStr ''Concert''),
                         (''poster_url'', VStr poster_url),
                         (''fanart_url'', VStr fanart_url),
                         (''mbid'', VNone)]))
                  | _ \<Rightarrow> Inl AttributeError)"

definition fetch_tmdb_data :: "world \<Rightarrow> keys \<Rightarrow> string \<Rightarrow> string \<Rightarrow> log \<Rightarrow> pydict option \<times> log" where
  "fetch_tmdb_data w ks artist title lg =
     (let query = artist @ '' '' @ title;
          lg1 = lg @ [Call Fetch_tmdb_data];
          response = tmdb_api w (length lg1) (tmdb_key ks) query;
          lg2 = lg1 @ [Request TMDB]
      in (case response of
            Failure \<Rightarrow> None
          | Reply results \<Rightarrow>
              (case results of
                 [] \<Rightarrow> None
               | movie # _ \<Rightarrow> or_none (tmdb_record artist title movie)),
          lg2))"

text \<open>\<^verbatim>\<open>fetch_theaudiodb_data\<close>, from \<^verbatim>\<open>track = data["track"][0]\<close> on.\<close>

definition tadb_record :: "string \<Rightarrow> string \<Rightarrow> pydict \<Rightarrow> exn + pydict option" where
  "tadb_record artist title track =
     (let found_title = dget_or track ''strTrack'' (VStr '''')
      in case similarity title found_title artist of
           Inl e \<Rightarrow> Inl e
         | Inr sim_score \<Rightarrow>
             if sim_score < 7 / 10 then Inr None
             else
               Inr (Some (map_of
                 [(''title'', found_title),
                  (''artist'', dget_or track ''strArtist'' (VStr artist)),
                  (''album'', dget_or track ''strAlbum'' (VStr '''')),
                  (''plot'', dget_or track ''strDescriptionEN'' (VStr '''')),
                  (''year'', py_or (dget track ''intYear'') (VStr '''')),
                  (''director'', py_or (dget track ''strMusicVidDirector'') (VStr '''')),
                  (''genre'', dget_or track ''strGenre'' (VStr '''')),
                  (''poster_url'', py_or (dget track ''strAlbumThumb'') (VStr '''')),
                  (''fanart_url'', py_or (dget track ''strTrackThumb'') (VStr '''')),
                  (''mbid'', dget track ''strMusicBrainzArtistID'')])))"

definition fetch_theaudiodb_data :: "world \<Rightarrow> keys \<Rightarrow> string \<Rightarrow> string \<Rightarrow> log \<Rightarrow> pydict option \<times> log" where
  "fetch_theaudiodb_data w ks artist title lg =
     (let api_key = tadb_key ks;
          lg1 = lg @ [Call Fetch_theaudiodb_data];
          response = tadb_api w (length lg1) api_key artist title;
          lg2 = lg1 @ [Request TheAudioDB]
      in (case response of
            Failure \<Rightarrow> None
          | Reply tracks \<Rightarrow>
              (case tracks of
                 [] \<Rightarrow> None
               | track # _ \<Rightarrow> or_none (tadb_record artist title track)),
          lg2))"

text \<open>
  \<^verbatim>\<open>_clean_discogs_title\<close>.  The inner \<^verbatim>\<open>normalize\<close> decomposes the string
  (\<^verbatim>\<open>unicodedata.normalize('NFD', s)\<close>), drops the combining marks and lowers the case.
  Among the code points up to 255 the accented Latin-1 letters decompose, into their
  base letter and one combining mark; no code point up to 255 is itself a combining
  mark.
\<close>

definition accented_chars :: "char list" where
  "accented_chars =
     [CHR 0xC0, CHR 0xC1, CHR 0xC2, CHR 0xC3, CHR 0xC4, CHR 0xC5, CHR 0xC7,
      CHR 0xC8, CHR 0xC9, CHR 0xCA, CHR 0xCB, CHR 0xCC, CHR 0xCD, CHR 0xCE, CHR 0xCF,
      CHR 0xD1, CHR 0xD2, CHR 0xD3, CHR 0xD4, CHR 0xD5, CHR 0xD6,
      CHR 0xD9, CHR 0xDA, CHR 0xDB, CHR 0xDC, CHR 0xDD,
      CHR 0xE0, CHR 0xE1, CHR 0xE2, CHR 0xE3, CHR 0xE4, CHR 0xE5, CHR 0xE7,
      CHR 0xE8, CHR 0xE9, CHR 0xEA, CHR 0xEB, CHR 0xEC, CHR 0xED, CHR 0xEE, CHR 0xEF,
      CHR 0xF1, CHR 0xF2, CHR 0xF3, CHR 0xF4, CHR 0xF5, CHR 0xF6,
      CHR 0xF9, CHR 0xFA, CHR 0xFB, CHR 0xFC, CHR 0xFD, CHR 0xFF]"

definition base_chars :: "char list" where
  "base_chars = ''AAAAAACEEEEIIIINOOOOOUUUUYaaaaaaceeeeiiiinooooouuuuyy''"

definition strip_accent :: "char \<Rightarrow> char" where
  "strip_accent c =
     (case map_of (zip accented_chars base_chars) c of
        None \<Rightarrow> c
      | Some b \<Rightarrow> b)"

definition normalize :: "string \<Rightarrow> string" where
  "normalize s = lower (map strip_accent s)"

definition clean_discogs_title_str :: "string \<Rightarrow> string \<Rightarrow> string" where
  "clean_discogs_title_str title artist =
     (case split_once title '' - '' of
        None \<Rightarrow> title
      | Some (l, r) \<Rightarrow>
          let potential_artist = strip l;
              real_title = strip r;
              norm_potential = normalize potential_artist;
              norm_artist = normalize artist
          in if norm_potential = norm_artist then real_title
             else if ratio norm_potential norm_artist > 3 / 4 then real_title
             else title)"

definition clean_discogs_title :: "pyval \<Rightarrow> string \<Rightarrow> exn + pyval" where
  "clean_discogs_title title artist =
     (if \<not> truthy title \<or> artist = [] then Inr title
      else case title of
             VStr t \<Rightarrow> Inr (VStr (clean_discogs_title_str t artist))
           | _ \<Rightarrow> Inl AttributeError)"

text \<open>\<^verbatim>\<open>fetch_discogs_data\<close>, from \<^verbatim>\<open>result = data["results"][0]\<close> on.  A result is its
  object of scalar fields and its \<^verbatim>\<open>genre\<close> list.\<close>

definition discogs_record :: "string \<Rightarrow> string \<Rightarrow> pydict \<times> string list \<Rightarrow> exn + pydict option" where
  "discogs_record artist title result =
     (case result of (obj, genres) \<Rightarrow>
        let raw_title = dget_or obj ''title'' (VStr title)
        in case clean_discogs_title raw_title artist of
             Inl e \<Rightarrow> Inl e
           | Inr discogs_title \<Rightarrow>
               (case similarity title discogs_title artist of
                  Inl e \<Rightarrow> Inl e
                | Inr sim_score \<Rightarrow>
                    if sim_score < 7 / 10 then Inr None
                    else
                      let year = dget_or obj ''year'' (VStr '''');
                          genre = (case genres of [] \<Rightarrow> ''Music'' | g # _ \<Rightarrow> g);
                          cover_image = py_or (dget_or obj ''cover_image'' (VStr ''''))
                                              (dget_or obj ''thumb'' (VStr ''''))
                      in Inr (Some (map_of
                           [(''title'', discogs_title),
                            (''artist'', VStr artist),
                            (''album'', VStr ''''),
                            (''plot'', VStr (''Release from Discogs: '' @ py_str discogs_title)),
                            (''year'', year),
                            (''director'', VStr ''''),
                            (''genre'', VStr genre),
                            (''poster_url'', cover_image),
                            (''fanart_url'', VStr ''''),
                            (''mbid'', VNone)]))))"

definition fetch_discogs_data :: "world \<Rightarrow> keys \<Rightarrow> string \<Rightarrow> string \<Rightarrow> log \<Rightarrow> pydict option \<times> log" where
  "fetch_discogs_data w ks artist title lg =
     (let query = artist @ '' '' @ title;
          lg1 = lg @ [Call Fetch_discogs_data];
          response = discogs_api w (length lg1) (discogs_key ks) (discogs_secret ks) query;
          lg2 = lg1 @ [Request Discogs]
      in (case response of
            Failure \<Rightarrow> None
          | Reply results \<Rightarrow>
              (case results of
                 [] \<Rightarrow> None
               | result # _ \<Rightarrow> or_none (discogs_record artist title result)),
          lg2))"

text \<open>
  \<^verbatim>\<open>fetch_fanart_data\<close>.  Without the key nothing is requested.  Otherwise up to
  \<^verbatim>\<open>max_retries = 3\<close> requests are sent: an answer with status 200 and a body of the
  expected shape ends the loop, every other answer leads to the next attempt.
\<close>

definition fanart_images :: "fanart_body \<Rightarrow> pydict" where
  "fanart_images data =
     (let poster_url = (case musicbanner data of
                          u # _ \<Rightarrow> u
                        | [] \<Rightarrow> (case artistthumb data of u # _ \<Rightarrow> u | [] \<Rightarrow> VStr ''''));
          fanart_url = (case artistbackground data of u # _ \<Rightarrow> u | [] \<Rightarrow> VStr '''')
      in map_of [(''poster_url'', poster_url), (''fanart_url'', fanart_url)])"

fun fanart_attempts :: "world \<Rightarrow> keys \<Rightarrow> string \<Rightarrow> nat \<Rightarrow> log \<Rightarrow> pydict option \<times> log" where
  "fanart_attempts w ks mbid 0 lg = (None, lg)"
| "fanart_attempts w ks mbid (Suc n) lg =
     (case fanart_api w (length lg) (fanart_api_key ks) mbid of
        Reply data \<Rightarrow> (Some (fanart_images data), lg @ [Request FanartTV])
      | Failure \<Rightarrow> fanart_attempts w ks mbid n (lg @ [Request FanartTV]))"

definition fetch_fanart_data :: "world \<Rightarrow> keys \<Rightarrow> pyval \<Rightarrow> log \<Rightarrow> pydict option \<times> log" where
  "fetch_fanart_data w ks mbid lg =
     (let lg1 = lg @ [Call Fetch_fanart_data]
      in if fanart_api_key ks = [] then (None, lg1)
         else fanart_attempts w ks (py_str mbid) 3 lg1)"

text \<open>
  \<^verbatim>\<open>_execute_setlist_request\<close>: the text built from the first setlist of the answer,
  \<^verbatim>\<open>None\<close> when there is no setlist or no song.
\<close>

fun number_songs :: "nat \<Rightarrow> string list \<Rightarrow> string" where
  "number_songs count [] = []"
| "number_songs count (name # names) =
     str_of_nat count @ ''. '' @ name @ [CHR 0x0A] @ number_songs (count + 1) names"

definition execute_setlist_request :: "setlist_body list reply \<Rightarrow> string option" where
  "execute_setlist_request response =
     (case response of
        Failure \<Rightarrow> None
      | Reply [] \<Rightarrow> None
      | Reply (setlist # _) \<Rightarrow>
          let tour_line = (case tour setlist of
                             None \<Rightarrow> []
                           | Some name \<Rightarrow> ''Tour: '' @ name @ [CHR 0x0A]);
              songs = number_songs 1 (concat (sets setlist))
          in if songs \<noteq> [] then Some (tour_line @ songs) else None)"

text \<open>\<^verbatim>\<open>date_str.split("-")\<close>\<close>

fun split_hyphen :: "string \<Rightarrow> string list" where
  "split_hyphen [] = [[]]"
| "split_hyphen (c # cs) =
     (if c = CHR ''-'' then [] # split_hyphen cs
      else (case split_hyphen cs of
              [] \<Rightarrow> [[c]]
            | p # ps \<Rightarrow> (c # p) # ps))"

text \<open>\<^verbatim>\<open>fetch_setlistfm_by_date\<close>: the date is turned round to day-month-year; with
  fewer than three parts the bare \<^verbatim>\<open>except\<close> returns \<^verbatim>\<open>None\<close>.\<close>

definition fetch_setlistfm_by_date :: "world \<Rightarrow> keys \<Rightarrow> string \<Rightarrow> string \<Rightarrow> log \<Rightarrow> string option \<times> log" where
  "fetch_setlistfm_by_date w ks artist date_str lg =
     (let lg1 = lg @ [Call Fetch_setlistfm_by_date]
      in if setlistfm_key ks = [] then (None, lg1)
         else case split_hyphen date_str of
                y # m # d # _ \<Rightarrow>
                  let formatted_date = d @ ''-'' @ m @ ''-'' @ y
                  in (execute_setlist_request
                        (setlist_api w (length lg1) (setlistfm_key ks) artist (By_date formatted_date)),
                      lg1 @ [Request SetlistFM])
              | _ \<Rightarrow> (None, lg1))"

text \<open>\<^verbatim>\<open>fetch_setlistfm_by_tour\<close>: the year is sent when it is true.\<close>

definition fetch_setlistfm_by_tour :: "world \<Rightarrow> keys \<Rightarrow> string \<Rightarrow> string \<Rightarrow> pyval \<Rightarrow> log \<Rightarrow> string option \<times> log" where
  "fetch_setlistfm_by_tour w ks artist tour_name year lg =
     (let lg1 = lg @ [Call Fetch_setlistfm_by_tour]
      in if setlistfm_key ks = [] then (None, lg1)
         else
           let params = By_tour tour_name (if truthy year then Some (py_str year) else None)
           in (execute_setlist_request (setlist_api w (length lg1) (setlistfm_key ks) artist params),
               lg1 @ [Request SetlistFM]))"

section \<open>The waterfall orchestrator\<close>

text \<open>A text that an adapter of the setlist service returned is true when it is
  neither \<^verbatim>\<open>None\<close> nor empty.\<close>

definition truthy_text :: "string option \<Rightarrow> bool" where
  "truthy_text t = (case t of None \<Rightarrow> False | Some s \<Rightarrow> s \<noteq> [])"

definition bad_words :: "string list" where
  "bad_words = [''Live'', ''The Movie'', ''Concert'', ''Film'', ''Tour'']"

text \<open>
  Step 1 of \<^verbatim>\<open>scrape_metadata\<close> after a TMDB hit: the setlist is looked up by date
  when a date of the form year-month-day is given, then by tour name with the title
  cleared of the words above.
\<close>

definition tmdb_setlist :: "world \<Rightarrow> keys \<Rightarrow> string \<Rightarrow> string option \<Rightarrow> pydict \<Rightarrow> log \<Rightarrow> (exn + string option) \<times> log" where
  "tmdb_setlist w ks artist date tmdb_data lg =
     (case (case date of
              None \<Rightarrow> (None, lg)
            | Some d \<Rightarrow> if d \<noteq> [] \<and> match_date d then fetch_setlistfm_by_date w ks artist d lg
                        else (None, lg)) of
        (setlist_text, lg1) \<Rightarrow>
          if truthy_text setlist_text then (Inr setlist_text, lg1)
          else
            (case tmdb_data ''title'' of
               None \<Rightarrow> (Inl KeyError, lg1)
             | Some (VStr t) \<Rightarrow>
                 let clean_title = fold (\<lambda>bw s. strip (remove_all s bw)) bad_words t
                 in if clean_title \<noteq> [] then
                      (case fetch_setlistfm_by_tour w ks artist clean_title (dget tmdb_data ''year'') lg1 of
                         (text, lg2) \<Rightarrow> (Inr text, lg2))
                    else (Inr setlist_text, lg1)
             | Some _ \<Rightarrow> (Inl AttributeError, lg1)))"

text \<open>\<^verbatim>\<open>tmdb_data["plot"] += f"\n\n[SETLIST]\n{setlist_text}"\<close>, which raises when the
  plot is no string.\<close>

definition append_setlist :: "pydict \<Rightarrow> string option \<Rightarrow> exn + pydict" where
  "append_setlist tmdb_data setlist_text =
     (case setlist_text of
        None \<Rightarrow> Inr tmdb_data
      | Some text \<Rightarrow>
          if text = [] then Inr tmdb_data
          else (case tmdb_data ''plot'' of
                  None \<Rightarrow> Inl KeyError
                | Some (VStr p) \<Rightarrow>
                    Inr (tmdb_data(''plot'' \<mapsto>
                           VStr (p @ [CHR 0x0A, CHR 0x0A] @ ''[SETLIST]'' @ [CHR 0x0A] @ text)))
                | Some _ \<Rightarrow> Inl TypeError))"

text \<open>Steps 2 to 5 of \<^verbatim>\<open>scrape_metadata\<close>: TheAudioDB, Discogs, Fanart.tv and the
  recovery of the Discogs poster.\<close>

definition fallback :: "world \<Rightarrow> keys \<Rightarrow> string \<Rightarrow> string \<Rightarrow> log \<Rightarrow> (exn + pydict option) \<times> log" where
  "fallback w ks artist title lg =
     (let nfo_data0 = map_of [(''is_concert'', VBool False), (''is_musicvideo'', VBool True)];
          (tadb_data, lg1) = fetch_theaudiodb_data w ks artist title lg;
          (found1, nfo_data1, poster_url1, fanart_url1, mbid) =
             (case tadb_data of
                Some d \<Rightarrow> (True, nfo_data0 ++ d, dget d ''poster_url'', dget d ''fanart_url'', dget d ''mbid'')
              | None \<Rightarrow> (False, nfo_data0, VNone, VNone, VNone));
          (discogs_data, lg2) =
             (if \<not> found1 then
                if discogs_key ks \<noteq> [] \<and> discogs_secret ks \<noteq> [] then fetch_discogs_data w ks artist title lg1
                else (None, lg1)
              else (None, lg1));
          (found_metadata, nfo_data, poster_url2) =
             (case discogs_data of
                Some d \<Rightarrow> (True, nfo_data1 ++ d, dget d ''poster_url'')
              | None \<Rightarrow> (found1, nfo_data1, poster_url1));
          (fanart_data, lg3) =
             (if found_metadata \<and> (\<not> truthy poster_url2 \<or> \<not> truthy fanart_url1) then
                if truthy mbid \<and> fanart_api_key ks \<noteq> [] then fetch_fanart_data w ks mbid lg2
                else (None, lg2)
              else (None, lg2));
          poster_url3 =
             (case fanart_data of
                Some f \<Rightarrow> if \<not> truthy poster_url2 then dget f ''poster_url'' else poster_url2
              | None \<Rightarrow> poster_url2);
          fanart_url =
             (case fanart_data of
                Some f \<Rightarrow> if \<not> truthy fanart_url1 then dget f ''fanart_url'' else fanart_url1
              | None \<Rightarrow> fanart_url1);
          (discogs_data', lg4) =
             (if found_metadata \<and> \<not> truthy poster_url3 then
                (case discogs_data of
                   None \<Rightarrow> if discogs_key ks \<noteq> [] then fetch_discogs_data w ks artist title lg3
                            else (None, lg3)
                 | Some d \<Rightarrow> (discogs_data, lg3))
              else (discogs_data, lg3));
          poster_url =
             (if found_metadata \<and> \<not> truthy poster_url3 then
                (case discogs_data' of
                   Some d \<Rightarrow> if truthy (dget d ''poster_url'') then dget d ''poster_url'' else poster_url3
                 | None \<Rightarrow> poster_url3)
              else poster_url3)
      in if found_metadata then
           (Inr (Some (nfo_data(''poster_url'' \<mapsto> poster_url, ''fanart_url'' \<mapsto> fanart_url))), lg4)
         else (Inr None, lg4))"

text \<open>
  \<^verbatim>\<open>scrape_metadata(self, artist, title, date=None)\<close>.  The result is the exception
  that leaves the method or the value it returns, with the log extended.  A
  dictionary that \<^verbatim>\<open>fetch_tmdb_data\<close> returns has entries, so \<^verbatim>\<open>if tmdb_data:\<close> tests
  that it is not \<^verbatim>\<open>None\<close>.
\<close>

definition scrape_metadata :: "world \<Rightarrow> keys \<Rightarrow> string \<Rightarrow> string \<Rightarrow> string option \<Rightarrow> log \<Rightarrow> (exn + pydict option) \<times> log" where
  "scrape_metadata w ks artist title date lg =
     (if tmdb_key ks \<noteq> [] then
        (case fetch_tmdb_data w ks artist title lg of
           (Some tmdb_data, lg1) \<Rightarrow>
             (case tmdb_setlist w ks artist date tmdb_data lg1 of
                (Inl e, lg2) \<Rightarrow> (Inl e, lg2)
              | (Inr setlist_text, lg2) \<Rightarrow>
                  (case append_setlist tmdb_data setlist_text of
                     Inl e \<Rightarrow> (Inl e, lg2)
                   | Inr d \<Rightarrow> (Inr (Some d), lg2)))
         | (None, lg1) \<Rightarrow> fallback w ks artist title lg1)
      else fallback w ks artist title lg)"

section \<open>The enrichment pipeline\<close>

text \<open>Step 1 of \<^verbatim>\<open>deep_enrich_data\<close>.  \<open>fill_missing enriched k src k'\<close> is one of its
  three assignments: the entry \<open>k\<close> is set from the entry \<open>k'\<close> of the Discogs
  record when the first is false and the second is true.\<close>

definition fill_missing :: "pydict \<Rightarrow> string \<Rightarrow> pydict \<Rightarrow> string \<Rightarrow> pydict" where
  "fill_missing enriched k src k' =
     (if \<not> truthy (dget enriched k) \<and> truthy (dget src k') then enriched(k \<mapsto> dget src k')
      else enriched)"

definition discogs_enrichment :: "world \<Rightarrow> keys \<Rightarrow> string \<Rightarrow> string \<Rightarrow> pydict \<Rightarrow> log \<Rightarrow> pydict \<times> log" where
  "discogs_enrichment w ks artist title enriched lg =
     (if \<not> truthy (dget enriched ''year'') \<or> \<not> truthy (dget enriched ''album'') \<or>
         \<not> truthy (dget enriched ''poster_url'') then
        if discogs_key ks \<noteq> [] \<and> discogs_secret ks \<noteq> [] then
          (case fetch_discogs_data w ks artist title lg of
             (Some discogs_data, lg1) \<Rightarrow>
               (fill_missing
                  (fill_missing
                     (fill_missing enriched ''year'' discogs_data ''year'')
                     ''album'' discogs_data ''title'')
                  ''poster_url'' discogs_data ''poster_url'',
                lg1)
           | (None, lg1) \<Rightarrow> (enriched, lg1))
        else (enriched, lg)
      else (enriched, lg))"

text \<open>
  Step 2, Wikipedia.  A page is taken when it exists, its summary is not that of a
  disambiguation page and names one of the keywords.  The second disambiguation
  phrase is Italian, its \<^verbatim>\<open>\<ograve>\<close> the code point \<open>0xF2\<close>.  An exception (\<open>Failure\<close>)
  ends the search and leaves the plot as it is.
\<close>

definition wiki_keywords :: "string list" where
  "wiki_keywords = [''album'', ''song'', ''concerto'', ''band'', ''canzone'', ''brano'',
     ''singolo'', ''gruppo'', ''musica'', ''rock'', ''pop'', ''metal'', ''jazz'', ''disco'', ''tour'']"

definition is_disambiguation :: "string \<Rightarrow> bool" where
  "is_disambiguation summary =
     (contains (lower summary) ''may refer to'' \<or>
      contains (lower summary) (''pu'' @ [CHR 0xF2] @ '' riferirsi a''))"

definition has_keyword :: "string \<Rightarrow> bool" where
  "has_keyword summary = list_ex (\<lambda>k. contains (lower summary) k) wiki_keywords"

fun wiki_search :: "world \<Rightarrow> string list \<Rightarrow> log \<Rightarrow> string option \<times> log" where
  "wiki_search w [] lg = (None, lg)"
| "wiki_search w (q # queries) lg =
     (case wiki_api w (length lg) q of
        Failure \<Rightarrow> (None, lg @ [Request Wikipedia])
      | Reply None \<Rightarrow> wiki_search w queries (lg @ [Request Wikipedia])
      | Reply (Some summary) \<Rightarrow>
          if is_disambiguation summary then wiki_search w queries (lg @ [Request Wikipedia])
          else if has_keyword summary then (Some summary, lg @ [Request Wikipedia])
          else wiki_search w queries (lg @ [Request Wikipedia]))"

text \<open>\<^verbatim>\<open>not enriched.get("plot") or len(enriched.get("plot", "")) < 50\<close>; a true value
  that is no string has no length.\<close>

definition plot_missing_or_short :: "pydict \<Rightarrow> exn + bool" where
  "plot_missing_or_short enriched =
     (if \<not> truthy (dget enriched ''plot'') then Inr True
      else case dget_or enriched ''plot'' (VStr '''') of
             VStr p \<Rightarrow> Inr (length p < 50)
           | _ \<Rightarrow> Inl TypeError)"

definition wikipedia_enrichment :: "world \<Rightarrow> string \<Rightarrow> string \<Rightarrow> pydict \<Rightarrow> log \<Rightarrow> (exn + pydict) \<times> log" where
  "wikipedia_enrichment w artist title enriched lg =
     (if wikipedia_available w then
        (case plot_missing_or_short enriched of
           Inl e \<Rightarrow> (Inl e, lg)
         | Inr short \<Rightarrow>
             if short then
               let queries = [artist @ '' '' @ title @ '' (song)'', title @ '' (song)'', title]
               in (case wiki_search w queries lg of
                     (Some summary, lg1) \<Rightarrow> (Inr (enriched(''plot'' \<mapsto> VStr summary)), lg1)
                   | (None, lg1) \<Rightarrow> (Inr enriched, lg1))
             else (Inr enriched, lg))
      else (Inr enriched, lg))"

text \<open>
  Step 3, setlist.fm.  The step is taken for a concert whose plot holds neither
  marker; a plot that is no string does not support \<^verbatim>\<open>in\<close>.  What the two adapters
  return is the text of \<^verbatim>\<open>_execute_setlist_request\<close> (or \<^verbatim>\<open>None\<close>), so in
  \<^verbatim>\<open>"sets" in setlist_data and "set" in setlist_data["sets"]\<close> the first test looks for
  the four letters in that text, and when they are there the subscript of a string by
  a string raises \<^verbatim>\<open>TypeError\<close>.  When they are not, \<^verbatim>\<open>songs\<close> stays empty and the
  plot is not touched.
\<close>

definition setlistfm_enrichment :: "world \<Rightarrow> keys \<Rightarrow> string \<Rightarrow> string \<Rightarrow> pyval \<Rightarrow> pydict \<Rightarrow> log \<Rightarrow> (exn + pydict) \<times> log" where
  "setlistfm_enrichment w ks artist title year enriched lg =
     (let is_concert = dget_or enriched ''is_concert'' (VBool True);
          current_plot = dget_or enriched ''plot'' (VStr '''')
      in if truthy is_concert then
           (case current_plot of
              VStr p \<Rightarrow>
                if \<not> contains p ''[SETLIST]'' \<and> \<not> contains p ''[SCALETTA'' then
                  let full_date = py_or (dget enriched ''date'') (dget enriched ''release_date'');
                      (setlist_data1, lg1) =
                         (if truthy full_date \<and> match_date (py_str full_date) then
                            fetch_setlistfm_by_date w ks artist (py_str full_date) lg
                          else (None, lg));
                      (setlist_data, lg2) =
                         (if \<not> truthy_text setlist_data1 then
                            fetch_setlistfm_by_tour w ks artist title year lg1
                          else (setlist_data1, lg1))
                  in (case setlist_data of
                        None \<Rightarrow> (Inr enriched, lg2)
                      | Some text \<Rightarrow>
                          if text \<noteq> [] \<and> contains text ''sets'' then (Inl TypeError, lg2)
                          else (Inr enriched, lg2))
                else (Inr enriched, lg)
            | _ \<Rightarrow> (Inl TypeError, lg))
         else (Inr enriched, lg))"

text \<open>Step 4, Fanart.tv.\<close>

definition fanart_enrichment :: "world \<Rightarrow> keys \<Rightarrow> pydict \<Rightarrow> log \<Rightarrow> pydict \<times> log" where
  "fanart_enrichment w ks enriched lg =
     (if \<not> truthy (dget enriched ''poster_url'') \<or> \<not> truthy (dget enriched ''fanart_url'') then
        let mbid = dget enriched ''mbid''
        in if truthy mbid then
             (case fetch_fanart_data w ks mbid lg of
                (Some fanart_data, lg1) \<Rightarrow>
                  let enriched1 = (if \<not> truthy (dget enriched ''poster_url'')
                                   then enriched(''poster_url'' \<mapsto> dget fanart_data ''poster_url'')
                                   else enriched);
                      enriched2 = (if \<not> truthy (dget enriched1 ''fanart_url'')
                                   then enriched1(''fanart_url'' \<mapsto> dget fanart_data ''fanart_url'')
                                   else enriched1)
                  in (enriched2, lg1)
              | (None, lg1) \<Rightarrow> (enriched, lg1))
           else (enriched, lg)
      else (enriched, lg))"

text \<open>
  \<^verbatim>\<open>deep_enrich_data(self, seed_data)\<close>.  The artist and the title of the record are
  strings (or false values, on which the method returns at once); a record that holds
  \<^verbatim>\<open>True\<close> there is outside the model and is answered by \<open>TypeError\<close>.
\<close>

definition deep_enrich_data :: "world \<Rightarrow> keys \<Rightarrow> pydict \<Rightarrow> log \<Rightarrow> (exn + pydict) \<times> log" where
  "deep_enrich_data w ks seed_data lg =
     (let enriched = seed_data;
          artist = dget_or enriched ''artist'' (VStr '''');
          title = dget_or enriched ''title'' (VStr '''');
          year = dget_or enriched ''year'' (VStr '''')
      in if \<not> truthy artist \<or> \<not> truthy title then (Inr enriched, lg)
         else
           (case (artist, title) of
              (VStr a, VStr t) \<Rightarrow>
                (case discogs_enrichment w ks a t enriched lg of
                   (enriched1, lg1) \<Rightarrow>
                     (case wikipedia_enrichment w a t enriched1 lg1 of
                        (Inl e, lg2) \<Rightarrow> (Inl e, lg2)
                      | (Inr enriched2, lg2) \<Rightarrow>
                          (case setlistfm_enrichment w ks a t year enriched2 lg2 of
                             (Inl e, lg3) \<Rightarrow> (Inl e, lg3)
                           | (Inr enriched3, lg3) \<Rightarrow>
                               (case fanart_enrichment w ks enriched3 lg3 of
                                  (enriched4, lg4) \<Rightarrow> (Inr enriched4, lg4)))))
            | _ \<Rightarrow> (Inl TypeError, lg)))"

section \<open>The merge resolver\<close>

text \<open>\<^verbatim>\<open>MergeDialog.fields_map\<close>: the keys compared and their labels, in the order of the
  rows.\<close>

definition fields_map :: "(string \<times> string) list" where
  "fields_map =
     [(''artist'', ''Artista''), (''title'', ''Titolo''), (''album'', ''Album''),
      (''year'', ''Anno''), (''plot'', ''Trama''), (''poster_url'', ''Poster (URL)''),
      (''fanart_url'', ''Fanart (URL)'')]"

text \<open>A row of the table: the key kept in the label item, the two texts shown, and the
  state of the check box.\<close>

record row =
  row_key :: string
  val_current :: string
  val_new :: string
  checked :: bool
  enabled :: bool

text \<open>The body of the loop of \<^verbatim>\<open>populate_table\<close>.\<close>

definition populate_row :: "pydict \<Rightarrow> pydict \<Rightarrow> string \<Rightarrow> row" where
  "populate_row current_data new_data k =
     (let vc = strip (py_str (dget_or current_data k (VStr '''')));
          vn = strip (py_str (dget_or new_data k (VStr '''')));
          is_new_empty = (vn = []);
          is_current_empty = (vc = []);
          is_equal = (vc = vn);
          r = \<lparr>row_key = k, val_current = vc, val_new = vn, checked = False, enabled = False\<rparr>
      in if is_new_empty then r\<lparr>enabled := False, checked := False\<rparr>
         else if is_equal then r\<lparr>enabled := False, checked := False\<rparr>
         else if is_current_empty then r\<lparr>checked := True, enabled := True\<rparr>
         else r\<lparr>checked := False, enabled := True\<rparr>)"

definition populate_table :: "pydict \<Rightarrow> pydict \<Rightarrow> row list" where
  "populate_table current_data new_data =
     map (\<lambda>(k, label). populate_row current_data new_data k) fields_map"

text \<open>The user clicks the check box of the row \<open>i\<close>: a disabled box does not react, an
  enabled one changes its state.\<close>

definition click :: "nat \<Rightarrow> row list \<Rightarrow> row list" where
  "click i table =
     (if i < length table \<and> enabled (table ! i)
      then table[i := (table ! i)\<lparr>checked := \<not> checked (table ! i)\<rparr>]
      else table)"

text \<open>\<^verbatim>\<open>get_merged_data\<close>: the copy of the current data, with the new value under the
  key of every checked row.\<close>

definition get_merged_data :: "pydict \<Rightarrow> pydict \<Rightarrow> row list \<Rightarrow> pydict" where
  "get_merged_data current_data new_data table =
     fold (\<lambda>r final_data.
             if checked r then final_data(row_key r \<mapsto> dget_or new_data (row_key r) (VStr ''''))
             else final_data)
          table current_data"

section \<open>Example inputs\<close>

text \<open>A stored record without a year and a retrieved one that brings it, both with the
  same album.\<close>

definition nevermind_current :: pydict where
  "nevermind_current = map_of [(''year'', VStr ''''), (''album'', VStr ''Nevermind'')]"

definition nevermind_new :: pydict where
  "nevermind_new =
     map_of [(''year'', VStr ''1991''), (''album'', VStr ''Nevermind''), (''is_concert'', VBool False)]"

text \<open>A world in which no provider answers, and two sets of credentials.\<close>

definition quiet_world :: world where
  "quiet_world =
     \<lparr>tmdb_api = (\<lambda>clock key query. Failure),
      tadb_api = (\<lambda>clock key artist title. Failure),
      discogs_api = (\<lambda>clock key secret query. Failure),
      fanart_api = (\<lambda>clock key mbid. Failure),
      setlist_api = (\<lambda>clock key artist params. Failure),
      wikipedia_available = False,
      wiki_api = (\<lambda>clock page. Failure)\<rparr>"

definition all_keys :: keys where
  "all_keys =
     \<lparr>tmdb_key = ''tmdb'', fanart_api_key = ''fanart'', discogs_key = ''dkey'',
      discogs_secret = ''dsecret'', setlistfm_key = ''setlist'', tadb_key = ''2''\<rparr>"

definition no_keys :: keys where
  "no_keys =
     \<lparr>tmdb_key = [], fanart_api_key = [], discogs_key = [],
      discogs_secret = [], setlistfm_key = [], tadb_key = []\<rparr>"

text \<open>The Discogs key without its secret, and the default key of TheAudioDB.\<close>

definition discogs_key_only :: keys where
  "discogs_key_only = no_keys\<lparr>discogs_key := ''dkey'', tadb_key := ''2''\<rparr>"

text \<open>A world in which TMDB knows the concert film and setlist.fm one setlist of the
  artist.\<close>

definition puppets_movie :: pydict where
  "puppets_movie =
     map_of [(''title'', VStr ''Metallica - Master of Puppets''),
             (''overview'', VStr ''Live in Seattle''),
             (''release_date'', VStr ''1989-08-29''),
             (''poster_path'', VStr ''/p.jpg'')]"

definition seattle_setlist :: setlist_body where
  "seattle_setlist = \<lparr>tour = Some ''Damaged Justice'', sets = [[''Blackened'', ''One'']]\<rparr>"

definition concert_world :: world where
  "concert_world =
     quiet_world\<lparr>tmdb_api := (\<lambda>clock key query. Reply [puppets_movie]),
                 setlist_api := (\<lambda>clock key artist params. Reply [seattle_setlist])\<rparr>"

text \<open>A world in which TheAudioDB knows the track (without images) and Discogs the
  release, and one in which both answer with another work.\<close>

definition one_track :: pydict where
  "one_track =
     map_of [(''strTrack'', VStr ''One''), (''strArtist'', VStr ''Metallica''),
             (''strAlbum'', VStr ''...And Justice for All''), (''intYear'', VStr ''1988'')]"

definition one_release :: "pydict \<times> string list" where
  "one_release =
     (map_of [(''title'', VStr ''Metallica - One''), (''year'', VStr ''1989''),
              (''cover_image'', VStr ''http://img/one.jpg'')],
      [''Rock''])"

definition video_world :: world where
  "video_world =
     quiet_world\<lparr>tadb_api := (\<lambda>clock key artist title. Reply [one_track]),
                 discogs_api := (\<lambda>clock key secret query. Reply [one_release])\<rparr>"

definition other_track :: pydict where
  "other_track = map_of [(''strTrack'', VStr ''Nothing Else Matters''), (''strMusicBrainzArtistID'', VStr ''65f4f0c5'')]"

definition other_release :: "pydict \<times> string list" where
  "other_release = (map_of [(''title'', VStr ''Metallica - Ride The Lightning''),
                            (''cover_image'', VStr ''http://img/ride.jpg'')], [])"

definition other_movie :: pydict where
  "other_movie = map_of [(''title'', VStr ''Some Kind of Monster'')]"

definition mismatch_world :: world where
  "mismatch_world =
     quiet_world\<lparr>tmdb_api := (\<lambda>clock key query. Reply [other_movie]),
                 tadb_api := (\<lambda>clock key artist title. Reply [other_track]),
                 discogs_api := (\<lambda>clock key secret query. Reply [other_release]),
                 fanart_api := (\<lambda>clock key mbid.
                    Reply \<lparr>musicbanner = [VStr ''http://img/banner.jpg''], artistthumb = [],
                           artistbackground = [VStr ''http://img/bg.jpg'']\<rparr>)\<rparr>"




text \<open>The record of the concert film as \<^verbatim>\<open>scrape_metadata\<close> returns it, with the
  setlist block in its plot, and a world in which setlist.fm and Wikipedia both
  answer.\<close>

definition puppets_plot :: string where
  "puppets_plot =
     ''Live in Seattle'' @ [CHR 0x0A, CHR 0x0A] @ ''[SETLIST]'' @ [CHR 0x0A] @
     ''Tour: Damaged Justice'' @ [CHR 0x0A] @ ''1. Blackened'' @ [CHR 0x0A] @ ''2. One'' @ [CHR 0x0A]"

definition puppets_record :: pydict where
  "puppets_record =
     map_of [(''artist'', VStr ''Metallica''), (''title'', VStr ''Metallica - Master of Puppets''),
             (''plot'', VStr puppets_plot), (''year'', VStr ''1989''),
             (''is_concert'', VBool True), (''mbid'', VNone)]"

definition concert_wiki_world :: world where
  "concert_wiki_world =
     concert_world\<lparr>wikipedia_available := True,
                   wiki_api := (\<lambda>clock page. Reply (Some ''Master of Puppets, album dei Metallica.''))\<rparr>"

section \<open>Properties of the similarity scorer\<close>

lemma strip_Nil [simp]: "strip [] = []"
  by (simp add: strip_def)

lemma lower_Nil [simp]: "lower [] = []"
  by (simp add: lower_def)

lemma strip_leading_sep_Nil [simp]: "strip_leading_sep [] = []"
  by (simp add: strip_leading_sep_def)

lemma remove_artist_Nil [simp]: "remove_artist a [] = []"
  by (simp add: remove_artist_def)

lemma clean_query_Nil [simp]: "clean_query [] artist = []"
  by (simp add: clean_query_def split: option.splits)

lemma clean_result_Nil [simp]: "clean_result [] artist = []"
  by (simp add: clean_result_def split: option.splits)

lemma contains_self: "contains s s"
  by (cases s) (simp_all add: startswith_def)

lemma contains_nonempty: "contains s sub \<Longrightarrow> sub \<noteq> [] \<Longrightarrow> s \<noteq> []"
  by (cases s) simp_all

text \<open>Two empty strings have the ratio 1: \<^verbatim>\<open>_calculate_ratio\<close> returns 1.0 for the
  length 0.\<close>

lemma ratio_Nil_Nil: "ratio [] [] = 1"
  by (simp add: ratio_def calculate_ratio_def)

text \<open>When the query has no parenthetical group to strip, a title that is query and
  candidate at once is normalised to the same string on both sides.\<close>

lemma clean_same:
  "strip_parens query = query \<Longrightarrow> clean_query query artist = clean_result query artist"
  by (simp add: clean_query_def clean_result_def)

text \<open>
  The normalisation on text beyond ASCII: the no-break space is stripped, accented
  capitals are lowered.  \<^verbatim>\<open>D\<Eacute>J\<Agrave> VU\<close> scores 1.0 against its mixed-case form; the query
  \<^verbatim>\<open>BJ\<Ouml>RK\<close> against the candidate \<^verbatim>\<open>Bj\<ouml>rk\<close> of the artist \<^verbatim>\<open>Bj\<ouml>rk\<close> leaves two empty
  strings and scores 1.0; a candidate that is a lone no-break space is normalised to
  the empty string and scores 0.
\<close>

lemma strip_no_break_space: "strip [CHR 0xA0] = [] \<and> strip ([CHR 0x85] @ ''a b'' @ [CHR 0xA0]) = ''a b''"
  by code_simp

lemma lower_latin1: "lower ([CHR 0xC9, CHR 0xD6, CHR 0xD7, CHR 0xDF] @ ''Az'') = [CHR 0xE9, CHR 0xF6, CHR 0xD7, CHR 0xDF] @ ''az''"
  by code_simp

lemma check_similarity_accented_capitals:
  "check_similarity (''D'' @ [CHR 0xC9] @ ''J'' @ [CHR 0xC0] @ '' VU'')
     (Some (''D'' @ [CHR 0xE9] @ ''j'' @ [CHR 0xE0] @ '' Vu'')) None = 1"
  by code_simp

lemma check_similarity_accented_artist:
  "check_similarity (''BJ'' @ [CHR 0xD6] @ ''RK'') (Some (''Bj'' @ [CHR 0xF6] @ ''rk''))
     (Some (''Bj'' @ [CHR 0xF6] @ ''rk'')) = 1"
  by code_simp

lemma check_similarity_blank_candidate:
  "check_similarity (''x'' @ [CHR 0xA0]) (Some [CHR 0xA0]) None = 0"
  by code_simp

lemma clean_query_no_break_space:
  "clean_query (''Title'' @ [CHR 0xA0] @ ''(Live)'') None = ''title''"
  by code_simp

text \<open>
  C7, as amended.  \<^verbatim>\<open>check_similarity\<close> returns 1.0 when the candidate title equals
  the query title, provided the title is not empty and the stripping of parenthetical
  groups leaves it unchanged; and it returns 1.0 whenever, after normalisation, one of
  the two strings is not empty and is a substring of the other.
\<close>

theorem check_similarity_equal_or_substring:
  "(query \<noteq> [] \<and> strip_parens query = query \<longrightarrow> check_similarity query (Some query) artist = 1) \<and>
   ((clean_query query artist \<noteq> [] \<and> contains (clean_result result artist) (clean_query query artist)) \<or>
    (clean_result result artist \<noteq> [] \<and> contains (clean_query query artist) (clean_result result artist))
      \<longrightarrow> check_similarity query (Some result) artist = 1)"
proof (intro conjI impI)
  assume a: "query \<noteq> [] \<and> strip_parens query = query"
  then have eq: "clean_query query artist = clean_result query artist"
    by (simp add: clean_same)
  show "check_similarity query (Some query) artist = 1"
  proof (cases "clean_result query artist = []")
    case True
    with a eq show ?thesis by (simp add: check_similarity_def ratio_Nil_Nil)
  next
    case False
    with a eq show ?thesis by (simp add: check_similarity_def contains_self)
  qed
next
  let ?cq = "clean_query query artist" and ?cr = "clean_result result artist"
  assume h: "(?cq \<noteq> [] \<and> contains ?cr ?cq) \<or> (?cr \<noteq> [] \<and> contains ?cq ?cr)"
  then have ne: "?cq \<noteq> []" "?cr \<noteq> []"
    by (auto dest: contains_nonempty)
  then have "query \<noteq> []" "result \<noteq> []" by auto
  with h ne show "check_similarity query (Some result) artist = 1"
    by (auto simp: check_similarity_def Let_def)
qed

text \<open>Both parts at work: a plain title against itself, and the candidate
  \<^verbatim>\<open>Metallica - Master of Puppets\<close> for the query \<^verbatim>\<open>Master of Puppets\<close> of the artist
  \<^verbatim>\<open>Metallica\<close>.\<close>

theorem check_similarity_equal_or_substring_witness:
  "check_similarity ''Army Of Me'' (Some ''Army Of Me'') None = 1 \<and>
   check_similarity ''Master of Puppets'' (Some ''Metallica - Master of Puppets'') (Some ''Metallica'') = 1"
proof -
  have h1: "''Army Of Me'' \<noteq> [] \<and> strip_parens ''Army Of Me'' = ''Army Of Me''"
    by code_simp
  have h2: "clean_query ''Master of Puppets'' (Some ''Metallica'') \<noteq> [] \<and>
       contains (clean_result ''Metallica - Master of Puppets'' (Some ''Metallica''))
                (clean_query ''Master of Puppets'' (Some ''Metallica''))"
    by code_simp
  from check_similarity_equal_or_substring [of "''Army Of Me''" None] h1
  have "check_similarity ''Army Of Me'' (Some ''Army Of Me'') None = 1" by blast
  moreover from check_similarity_equal_or_substring
     [of "''Master of Puppets''" "Some ''Metallica''" "''Metallica - Master of Puppets''"] h2
  have "check_similarity ''Master of Puppets'' (Some ''Metallica - Master of Puppets'') (Some ''Metallica'') = 1"
    by blast
  ultimately show ?thesis by simp
qed

text \<open>
  Equal titles do not always score 1.0.  The query \<^verbatim>\<open>One (Live) Two\<close> is normalised to
  \<^verbatim>\<open>one two\<close>, the same title as candidate to \<^verbatim>\<open>one (live) two\<close>; neither contains the
  other, and the ratio of the two is 2/3, below the gate.
\<close>

theorem check_similarity_equal_titles_counterexample:
  "check_similarity ''One (Live) Two'' (Some ''One (Live) Two'') None \<noteq> 1"
  by code_simp

lemma check_similarity_equal_titles_value:
  "check_similarity ''One (Live) Two'' (Some ''One (Live) Two'') None = 2 / 3"
  by code_simp

text \<open>
  C10.  When query and candidate are not empty and both normalised strings are empty
  (as when each is the name of the artist), \<^verbatim>\<open>check_similarity\<close> returns 1.0, the
  ratio of two empty strings, and the test \<^verbatim>\<open>sim_score < 0.7\<close> of the adapters fails:
  the candidate passes the gate.
\<close>

theorem check_similarity_both_empty:
  "query \<noteq> [] \<Longrightarrow> result \<noteq> [] \<Longrightarrow> clean_query query artist = [] \<Longrightarrow>
   clean_result result artist = [] \<Longrightarrow>
     check_similarity query (Some result) artist = 1 \<and>
     \<not> check_similarity query (Some result) artist < 7 / 10"
  by (simp add: check_similarity_def ratio_Nil_Nil)

theorem check_similarity_both_empty_witness:
  "check_similarity ''Metallica'' (Some ''Metallica'') (Some ''Metallica'') = 1 \<and>
   \<not> check_similarity ''Metallica'' (Some ''Metallica'') (Some ''Metallica'') < 7 / 10"
proof -
  have "clean_query ''Metallica'' (Some ''Metallica'') = []" by code_simp
  moreover have "clean_result ''Metallica'' (Some ''Metallica'') = []" by code_simp
  ultimately show ?thesis
    using check_similarity_both_empty [of "''Metallica''" "''Metallica''" "Some ''Metallica''"] by simp
qed

section \<open>Properties of the merge resolver\<close>

lemma populate_row_vals:
  "row_key (populate_row c n k) = k"
  "val_current (populate_row c n k) = strip (py_str (dget_or c k (VStr '''')))"
  "val_new (populate_row c n k) = strip (py_str (dget_or n k (VStr '''')))"
  by (simp_all add: populate_row_def Let_def)

lemma populate_table_keys: "map row_key (populate_table c n) = map fst fields_map"
  by (simp add: populate_table_def populate_row_vals fields_map_def)

lemma populate_row_rule:
  "(val_new (populate_row c n k) = [] \<or> val_new (populate_row c n k) = val_current (populate_row c n k)
      \<longrightarrow> \<not> checked (populate_row c n k) \<and> \<not> enabled (populate_row c n k)) \<and>
   (val_current (populate_row c n k) = [] \<and> val_new (populate_row c n k) \<noteq> []
      \<longrightarrow> checked (populate_row c n k) \<and> enabled (populate_row c n k)) \<and>
   (val_current (populate_row c n k) \<noteq> [] \<and> val_new (populate_row c n k) \<noteq> [] \<and>
    val_new (populate_row c n k) \<noteq> val_current (populate_row c n k)
      \<longrightarrow> \<not> checked (populate_row c n k) \<and> enabled (populate_row c n k))"
  by (auto simp: populate_row_def Let_def)

lemma populate_table_rows:
  "r \<in> set (populate_table c n) \<Longrightarrow> \<exists>k. r = populate_row c n k"
  by (auto simp: populate_table_def)

text \<open>The rows the rule forces off: the new text is empty or equals the current one.\<close>

definition forced_off :: "row \<Rightarrow> bool" where
  "forced_off r = (val_new r = [] \<or> val_new r = val_current r)"

lemma click_keeps:
  assumes "\<forall>r \<in> set t. forced_off r \<longrightarrow> \<not> checked r \<and> \<not> enabled r"
  shows "\<forall>r \<in> set (click i t). forced_off r \<longrightarrow> \<not> checked r \<and> \<not> enabled r"
proof (cases "i < length t \<and> enabled (t ! i)")
  case False
  with assms show ?thesis by (auto simp: click_def)
next
  case True
  let ?x = "(t ! i)\<lparr>checked := \<not> checked (t ! i)\<rparr>"
  from True have ti: "t ! i \<in> set t" by simp
  with assms True have "\<not> forced_off (t ! i)" by blast
  then have x: "\<not> forced_off ?x" by (simp add: forced_off_def)
  have "set (click i t) \<subseteq> insert ?x (set t)"
    using True by (simp add: click_def set_update_subset_insert)
  with assms x show ?thesis by blast
qed

lemma clicks_keep:
  "\<forall>r \<in> set t. forced_off r \<longrightarrow> \<not> checked r \<and> \<not> enabled r \<Longrightarrow>
   \<forall>r \<in> set (fold click clicks t). forced_off r \<longrightarrow> \<not> checked r \<and> \<not> enabled r"
proof (induction clicks arbitrary: t)
  case Nil
  then show ?case by simp
next
  case (Cons i clicks)
  from Cons.IH [OF click_keeps [OF Cons.prems]] show ?case by simp
qed

text \<open>A new album that differs from the current one by a trailing no-break space is
  equal to it after the trimming, and a plot that is a lone no-break space is empty:
  both boxes are unchecked and disabled.\<close>

lemma populate_row_no_break_space:
  "populate_row (map_of [(''album'', VStr ''Nevermind''), (''plot'', VStr '''')])
                (map_of [(''album'', VStr (''Nevermind'' @ [CHR 0xA0])), (''plot'', VStr [CHR 0xA0])])
                ''album'' =
     \<lparr>row_key = ''album'', val_current = ''Nevermind'', val_new = ''Nevermind'',
      checked = False, enabled = False\<rparr> \<and>
   populate_row (map_of [(''album'', VStr ''Nevermind''), (''plot'', VStr '''')])
                (map_of [(''album'', VStr (''Nevermind'' @ [CHR 0xA0])), (''plot'', VStr [CHR 0xA0])])
                ''plot'' =
     \<lparr>row_key = ''plot'', val_current = [], val_new = [], checked = False, enabled = False\<rparr>"
  by (simp add: populate_row_def dget_or_def strip_def is_space_def Let_def)

text \<open>
  C3.  The table has one row for each field of \<^verbatim>\<open>fields_map\<close>, in its order.  In every
  row the two texts are the current and the new value after \<^verbatim>\<open>str()\<close> and
  \<^verbatim>\<open>strip()\<close>.  When the new text is empty or equals the current one the box is
  unchecked and disabled; when the current text is empty and the new one is not, it is
  checked and enabled; when both are non-empty and differ, it is unchecked and
  enabled.  Whatever boxes the user clicks afterwards, a row of the first kind stays
  unchecked and disabled.
\<close>

theorem merge_defaults:
  "map row_key (populate_table current_data new_data) = map fst fields_map \<and>
   (\<forall>r \<in> set (populate_table current_data new_data).
      val_current r = strip (py_str (dget_or current_data (row_key r) (VStr ''''))) \<and>
      val_new r = strip (py_str (dget_or new_data (row_key r) (VStr ''''))) \<and>
      (val_new r = [] \<or> val_new r = val_current r \<longrightarrow> \<not> checked r \<and> \<not> enabled r) \<and>
      (val_current r = [] \<and> val_new r \<noteq> [] \<longrightarrow> checked r \<and> enabled r) \<and>
      (val_current r \<noteq> [] \<and> val_new r \<noteq> [] \<and> val_new r \<noteq> val_current r
         \<longrightarrow> \<not> checked r \<and> enabled r)) \<and>
   (\<forall>r \<in> set (fold click clicks (populate_table current_data new_data)).
      val_new r = [] \<or> val_new r = val_current r \<longrightarrow> \<not> checked r \<and> \<not> enabled r)"
proof (intro conjI ballI)
  show "map row_key (populate_table current_data new_data) = map fst fields_map"
    by (rule populate_table_keys)
next
  fix r assume "r \<in> set (populate_table current_data new_data)"
  then obtain k where r: "r = populate_row current_data new_data k"
    by (auto dest: populate_table_rows)
  show "val_current r = strip (py_str (dget_or current_data (row_key r) (VStr '''')))"
    and "val_new r = strip (py_str (dget_or new_data (row_key r) (VStr '''')))"
    by (simp_all add: r populate_row_vals)
  note rule = populate_row_rule [of current_data new_data k, folded r]
  from rule show "val_new r = [] \<or> val_new r = val_current r \<longrightarrow> \<not> checked r \<and> \<not> enabled r"
    by (rule conjunct1)
  from rule show "val_current r = [] \<and> val_new r \<noteq> [] \<longrightarrow> checked r \<and> enabled r"
    by (rule conjunct1 [OF conjunct2])
  from rule show "val_current r \<noteq> [] \<and> val_new r \<noteq> [] \<and> val_new r \<noteq> val_current r
         \<longrightarrow> \<not> checked r \<and> enabled r"
    by (rule conjunct2 [OF conjunct2])
next
  fix r assume r: "r \<in> set (fold click clicks (populate_table current_data new_data))"
  have "\<forall>r \<in> set (populate_table current_data new_data). forced_off r \<longrightarrow> \<not> checked r \<and> \<not> enabled r"
  proof
    fix r' assume "r' \<in> set (populate_table current_data new_data)"
    then obtain k where r': "r' = populate_row current_data new_data k"
      by (auto dest: populate_table_rows)
    from populate_row_rule [of current_data new_data k, folded r']
    show "forced_off r' \<longrightarrow> \<not> checked r' \<and> \<not> enabled r'"
      unfolding forced_off_def by (rule conjunct1)
  qed
  from clicks_keep [OF this, of clicks] r
  show "val_new r = [] \<or> val_new r = val_current r \<longrightarrow> \<not> checked r \<and> \<not> enabled r"
    by (simp add: forced_off_def)
qed

text \<open>The record without a year against the one that brings it: the year is
  preselected, the equal album is locked, also after clicks on it.\<close>

theorem merge_defaults_witness:
  "populate_row nevermind_current nevermind_new ''year'' \<in> set (populate_table nevermind_current nevermind_new) \<and>
   checked (populate_row nevermind_current nevermind_new ''year'') \<and>
   enabled (populate_row nevermind_current nevermind_new ''year'') \<and>
   populate_row nevermind_current nevermind_new ''album'' \<in> set (populate_table nevermind_current nevermind_new) \<and>
   \<not> checked (populate_row nevermind_current nevermind_new ''album'') \<and>
   \<not> enabled (populate_row nevermind_current nevermind_new ''album'') \<and>
   row_key (fold click [2, 3, 2] (populate_table nevermind_current nevermind_new) ! 2) = ''album'' \<and>
   \<not> checked (fold click [2, 3, 2] (populate_table nevermind_current nevermind_new) ! 2)"
proof -
  define y where "y = populate_row nevermind_current nevermind_new ''year''"
  define a where "a = populate_row nevermind_current nevermind_new ''album''"
  define t where "t = fold click [2, 3, 2] (populate_table nevermind_current nevermind_new)"
  have y: "y \<in> set (populate_table nevermind_current nevermind_new)"
    and a: "a \<in> set (populate_table nevermind_current nevermind_new)"
    unfolding y_def a_def by (simp_all add: populate_table_def fields_map_def)
  have vy: "val_current y = [] \<and> val_new y \<noteq> []" unfolding y_def by code_simp
  have va: "val_new a = val_current a" unfolding a_def by code_simp
  have vt: "val_new (t ! 2) = val_current (t ! 2)" unfolding t_def by code_simp
  have kt: "row_key (t ! 2) = ''album''" unfolding t_def by code_simp
  have "length t = 7" unfolding t_def by code_simp
  then have ca: "t ! 2 \<in> set t"
    using nth_mem [of 2 t] by simp
  note m = merge_defaults [of nevermind_current nevermind_new "[2, 3, 2]", folded t_def]
  note m2 = conjunct1 [OF conjunct2 [OF m]]
  note m3 = conjunct2 [OF conjunct2 [OF m]]
  from bspec [OF m2 y] vy have cy: "checked y \<and> enabled y" by blast
  from bspec [OF m2 a] va have na: "\<not> checked a \<and> \<not> enabled a" by blast
  from bspec [OF m3 ca] vt have nt: "\<not> checked (t ! 2)" by blast
  from y cy a na kt nt show ?thesis
    unfolding y_def a_def t_def by blast
qed


lemma click_keys: "map row_key (click i t) = map row_key t"
  by (simp add: click_def map_update list_update_same_conv)

lemma clicks_keys: "map row_key (fold click clicks t) = map row_key t"
  by (induction clicks arbitrary: t) (simp_all add: click_keys)

lemma distinct_fields: "distinct (map fst fields_map)"
  by (simp add: fields_map_def)

lemma get_merged_data_lookup:
  "fold (\<lambda>r final_data.
           if checked r then final_data(row_key r \<mapsto> dget_or n (row_key r) (VStr ''''))
           else final_data) t d k =
     (if \<exists>r \<in> set t. row_key r = k \<and> checked r then Some (dget_or n k (VStr '''')) else d k)"
  by (induction t arbitrary: d) auto

text \<open>
  C9.  After any clicks of the user, \<^verbatim>\<open>get_merged_data\<close> holds under the key of each
  row (the rows are the fields of \<^verbatim>\<open>fields_map\<close>) the new value when the box of the
  row is checked and what the current data holds otherwise; under every key outside
  \<^verbatim>\<open>fields_map\<close> it holds what the current data holds.
\<close>

theorem get_merged_data_fields:
  "(\<forall>r \<in> set (fold click clicks (populate_table current_data new_data)).
      get_merged_data current_data new_data
        (fold click clicks (populate_table current_data new_data)) (row_key r) =
      (if checked r then Some (dget_or new_data (row_key r) (VStr ''''))
       else current_data (row_key r))) \<and>
   map row_key (fold click clicks (populate_table current_data new_data)) = map fst fields_map \<and>
   (\<forall>k. k \<notin> set (map fst fields_map) \<longrightarrow>
      get_merged_data current_data new_data
        (fold click clicks (populate_table current_data new_data)) k = current_data k)"
proof -
  define t where "t = fold click clicks (populate_table current_data new_data)"
  have keys: "map row_key t = map fst fields_map"
    by (simp add: t_def clicks_keys populate_table_keys)
  then have d: "distinct (map row_key t)"
    by (simp add: distinct_fields)
  have 1: "get_merged_data current_data new_data t (row_key r) =
      (if checked r then Some (dget_or new_data (row_key r) (VStr '''')) else current_data (row_key r))"
    if r: "r \<in> set t" for r
  proof -
    have "(\<exists>r' \<in> set t. row_key r' = row_key r \<and> checked r') \<longleftrightarrow> checked r"
    proof
      assume "\<exists>r' \<in> set t. row_key r' = row_key r \<and> checked r'"
      then obtain r' where r': "r' \<in> set t" "row_key r' = row_key r" "checked r'" by blast
      from d have "inj_on row_key (set t)" by (simp add: distinct_map)
      with r r' have "r' = r" by (auto dest: inj_onD)
      with r' show "checked r" by simp
    next
      assume "checked r"
      with r show "\<exists>r' \<in> set t. row_key r' = row_key r \<and> checked r'" by blast
    qed
    then show ?thesis
      unfolding get_merged_data_def get_merged_data_lookup by simp
  qed
  have 2: "get_merged_data current_data new_data t k = current_data k"
    if k: "k \<notin> set (map fst fields_map)" for k
  proof -
    from k keys have "k \<notin> row_key ` set t" by (metis set_map)
    then have "\<not> (\<exists>r \<in> set t. row_key r = k \<and> checked r)" by blast
    then show ?thesis
      unfolding get_merged_data_def get_merged_data_lookup by auto
  qed
  from 1 2 keys show ?thesis unfolding t_def by blast
qed

text \<open>With the defaults the year is taken from the new record; when the user unchecks
  it the current (empty) year stays; \<^verbatim>\<open>is_concert\<close>, absent from the current data
  and from \<^verbatim>\<open>fields_map\<close>, stays absent.\<close>

theorem get_merged_data_fields_witness:
  "get_merged_data nevermind_current nevermind_new
     (populate_table nevermind_current nevermind_new) ''year'' = Some (VStr ''1991'') \<and>
   get_merged_data nevermind_current nevermind_new
     (fold click [3, 2] (populate_table nevermind_current nevermind_new)) ''year'' = Some (VStr '''') \<and>
   get_merged_data nevermind_current nevermind_new
     (populate_table nevermind_current nevermind_new) ''is_concert'' = None"
proof -
  define t0 where "t0 = populate_table nevermind_current nevermind_new"
  define t1 where "t1 = fold click [3, 2] (populate_table nevermind_current nevermind_new)"
  note m0 = get_merged_data_fields [of "[]" nevermind_current nevermind_new, simplified, folded t0_def]
  note m1 = get_merged_data_fields [of "[3, 2]" nevermind_current nevermind_new, folded t1_def]
  have l0: "length t0 = 7" and l1: "length t1 = 7"
    unfolding t0_def t1_def by code_simp+
  have r0: "t0 ! 3 \<in> set t0" and r1: "t1 ! 3 \<in> set t1"
    using l0 l1 nth_mem [of 3 t0] nth_mem [of 3 t1] by simp_all
  have k0: "row_key (t0 ! 3) = ''year''" "checked (t0 ! 3)"
    unfolding t0_def by code_simp+
  have k1: "row_key (t1 ! 3) = ''year''" "\<not> checked (t1 ! 3)"
    unfolding t1_def by code_simp+
  have n: "dget_or nevermind_new ''year'' (VStr '''') = VStr ''1991''"
    "nevermind_current ''year'' = Some (VStr '''')" "nevermind_current ''is_concert'' = None"
    by (simp_all add: nevermind_new_def nevermind_current_def dget_or_def)
  have nk: "''is_concert'' \<notin> set (map fst fields_map)"
    by (simp add: fields_map_def)
  from bspec [OF conjunct1 [OF m0] r0] k0 n
  have a: "get_merged_data nevermind_current nevermind_new t0 ''year'' = Some (VStr ''1991'')"
    by simp
  from bspec [OF conjunct1 [OF m1] r1] k1 n
  have b: "get_merged_data nevermind_current nevermind_new t1 ''year'' = Some (VStr '''')"
    by simp
  from conjunct2 [OF conjunct2 [OF m0]] nk n
  have c: "get_merged_data nevermind_current nevermind_new t0 ''is_concert'' = None"
    by simp
  from a b c show ?thesis unfolding t0_def t1_def by blast
qed

section \<open>Properties of the waterfall\<close>

text \<open>A score that passes the test \<^verbatim>\<open>sim_score < 0.7\<close> was computed from a string.\<close>

lemma similarity_accept:
  "similarity title found artist = Inr s \<Longrightarrow> \<not> s < 7 / 10 \<Longrightarrow>
     \<exists>t. found = VStr t \<and> 7 / 10 \<le> check_similarity title (Some t) (Some artist)"
  by (cases found) (auto simp: check_similarity_def split: if_splits)

lemma tmdb_record_gate:
  assumes "tmdb_record artist title movie = Inr (Some r)"
  shows "\<exists>t. r ''title'' = Some (VStr t) \<and> 7 / 10 \<le> check_similarity title (Some t) (Some artist)"
proof -
  let ?found = "dget_or movie ''title'' (VStr '''')"
  from assms obtain s where s: "similarity title ?found artist = Inr s" "\<not> s < 7 / 10"
    by (auto simp: tmdb_record_def Let_def split: sum.splits if_splits)
  from similarity_accept [OF this] obtain t where t: "?found = VStr t"
    "7 / 10 \<le> check_similarity title (Some t) (Some artist)" by blast
  from assms s t have "r ''title'' = Some (VStr t)"
    by (auto simp: tmdb_record_def Let_def split: sum.splits if_splits pyval.splits)
  with t show ?thesis by blast
qed

lemma tadb_record_gate:
  assumes "tadb_record artist title track = Inr (Some r)"
  shows "\<exists>t. r ''title'' = Some (VStr t) \<and> 7 / 10 \<le> check_similarity title (Some t) (Some artist)"
proof -
  let ?found = "dget_or track ''strTrack'' (VStr '''')"
  from assms obtain s where s: "similarity title ?found artist = Inr s" "\<not> s < 7 / 10"
    by (auto simp: tadb_record_def Let_def split: sum.splits if_splits)
  from similarity_accept [OF this] obtain t where t: "?found = VStr t"
    "7 / 10 \<le> check_similarity title (Some t) (Some artist)" by blast
  from assms s t have "r ''title'' = Some (VStr t)"
    by (auto simp: tadb_record_def Let_def split: sum.splits if_splits)
  with t show ?thesis by blast
qed

lemma discogs_record_gate:
  assumes "discogs_record artist title result = Inr (Some r)"
  shows "\<exists>t. r ''title'' = Some (VStr t) \<and> 7 / 10 \<le> check_similarity title (Some t) (Some artist)"
proof -
  obtain obj genres where res: "result = (obj, genres)" by (cases result)
  from assms res obtain discogs_title s where
    c: "clean_discogs_title (dget_or obj ''title'' (VStr title)) artist = Inr discogs_title"
    and s: "similarity title discogs_title artist = Inr s" "\<not> s < 7 / 10"
    by (auto simp: discogs_record_def Let_def split: sum.splits if_splits)
  from similarity_accept [OF s] obtain t where t: "discogs_title = VStr t"
    "7 / 10 \<le> check_similarity title (Some t) (Some artist)" by blast
  from assms res c s t have "r ''title'' = Some (VStr t)"
    by (auto simp: discogs_record_def Let_def split: sum.splits if_splits)
  with t show ?thesis by blast
qed

lemma fetch_tmdb_data_gate:
  "fetch_tmdb_data w ks artist title lg = (Some r, lg') \<Longrightarrow>
     \<exists>t. r ''title'' = Some (VStr t) \<and> 7 / 10 \<le> check_similarity title (Some t) (Some artist)"
  by (auto simp: fetch_tmdb_data_def Let_def or_none_def
        split: reply.splits list.splits sum.splits dest: tmdb_record_gate)

lemma fetch_theaudiodb_data_gate:
  "fetch_theaudiodb_data w ks artist title lg = (Some r, lg') \<Longrightarrow>
     \<exists>t. r ''title'' = Some (VStr t) \<and> 7 / 10 \<le> check_similarity title (Some t) (Some artist)"
  by (auto simp: fetch_theaudiodb_data_def Let_def or_none_def
        split: reply.splits list.splits sum.splits dest: tadb_record_gate)

lemma fetch_discogs_data_gate:
  "fetch_discogs_data w ks artist title lg = (Some r, lg') \<Longrightarrow>
     \<exists>t. r ''title'' = Some (VStr t) \<and> 7 / 10 \<le> check_similarity title (Some t) (Some artist)"
  by (auto simp: fetch_discogs_data_def Let_def or_none_def
        split: reply.splits list.splits sum.splits dest: discogs_record_gate)

text \<open>What the fallback steps return: nothing, or the record of TheAudioDB or of
  Discogs with \<^verbatim>\<open>is_concert\<close> and \<^verbatim>\<open>is_musicvideo\<close> below it and the two image URLs
  set anew.\<close>

lemma fallback_shape:
  "k \<noteq> ''poster_url'' \<Longrightarrow> k \<noteq> ''fanart_url'' \<Longrightarrow> d k = Some v \<Longrightarrow>
     ((map_of [(''is_concert'', VBool False), (''is_musicvideo'', VBool True)] ++ d)
        (''poster_url'' \<mapsto> p, ''fanart_url'' \<mapsto> f)) k = Some v"
  by (simp add: map_add_def)

lemma fallback_cases:
  assumes "fallback w ks artist title lg = (res, lg')"
  shows "res = Inr None \<or>
     (\<exists>d r lgx lgy.
        fetch_theaudiodb_data w ks artist title lgx = (Some d, lgy) \<and> res = Inr (Some r) \<and>
        (\<forall>k v. k \<noteq> ''poster_url'' \<longrightarrow> k \<noteq> ''fanart_url'' \<longrightarrow> d k = Some v \<longrightarrow> r k = Some v)) \<or>
     (\<exists>d r lgx lgy.
        discogs_key ks \<noteq> [] \<and> discogs_secret ks \<noteq> [] \<and>
        fetch_discogs_data w ks artist title lgx = (Some d, lgy) \<and> res = Inr (Some r) \<and>
        (\<forall>k v. k \<noteq> ''poster_url'' \<longrightarrow> k \<noteq> ''fanart_url'' \<longrightarrow> d k = Some v \<longrightarrow> r k = Some v))"
proof -
  obtain tadb_data lg1 where t: "fetch_theaudiodb_data w ks artist title lg = (tadb_data, lg1)"
    by (cases "fetch_theaudiodb_data w ks artist title lg")
  show ?thesis
  proof (cases tadb_data)
    case (Some d)
    with assms t have "\<exists>p f. res = Inr (Some ((map_of [(''is_concert'', VBool False), (''is_musicvideo'', VBool True)] ++ d)
                     (''poster_url'' \<mapsto> p, ''fanart_url'' \<mapsto> f)))"
      by (simp add: fallback_def Let_def split_def del: map_of.simps fun_upd_apply) blast
    then obtain p f where res: "res = Inr (Some ((map_of [(''is_concert'', VBool False), (''is_musicvideo'', VBool True)] ++ d)
                     (''poster_url'' \<mapsto> p, ''fanart_url'' \<mapsto> f)))" by blast
    define r where "r = (map_of [(''is_concert'', VBool False), (''is_musicvideo'', VBool True)] ++ d)
                     (''poster_url'' \<mapsto> p, ''fanart_url'' \<mapsto> f)"
    have shape: "\<forall>k v. k \<noteq> ''poster_url'' \<longrightarrow> k \<noteq> ''fanart_url'' \<longrightarrow> d k = Some v \<longrightarrow> r k = Some v"
      unfolding r_def by (intro allI impI) (rule fallback_shape)
    from res have res': "res = Inr (Some r)" by (simp only: r_def)
    from t Some have t': "fetch_theaudiodb_data w ks artist title lg = (Some d, lg1)" by simp
    have "\<exists>d r lgx lgy.
        fetch_theaudiodb_data w ks artist title lgx = (Some d, lgy) \<and> res = Inr (Some r) \<and>
        (\<forall>k v. k \<noteq> ''poster_url'' \<longrightarrow> k \<noteq> ''fanart_url'' \<longrightarrow> d k = Some v \<longrightarrow> r k = Some v)"
      by (intro exI conjI) (rule t', rule res', rule shape)
    then show ?thesis by (rule disjI2 [OF disjI1])
  next
    case None
    obtain discogs_data lg2 where d: "fetch_discogs_data w ks artist title lg1 = (discogs_data, lg2)"
      by (cases "fetch_discogs_data w ks artist title lg1")
    show ?thesis
    proof (cases "discogs_key ks \<noteq> [] \<and> discogs_secret ks \<noteq> []")
      case False
      with assms t None have "res = Inr None"
        by (simp add: fallback_def Let_def split_def del: map_of.simps)
      then show ?thesis by simp
    next
      case True
      show ?thesis
      proof (cases discogs_data)
        case None': None
        with assms t None d True have "res = Inr None"
          by (simp add: fallback_def Let_def split_def del: map_of.simps)
        then show ?thesis by simp
      next
        case (Some dd)
        with assms t None d True have "\<exists>p f. res = Inr (Some ((map_of [(''is_concert'', VBool False), (''is_musicvideo'', VBool True)] ++ dd)
                     (''poster_url'' \<mapsto> p, ''fanart_url'' \<mapsto> f)))"
          by (simp add: fallback_def Let_def split_def del: map_of.simps fun_upd_apply) blast
        then obtain p f where res: "res = Inr (Some ((map_of [(''is_concert'', VBool False), (''is_musicvideo'', VBool True)] ++ dd)
                     (''poster_url'' \<mapsto> p, ''fanart_url'' \<mapsto> f)))" by blast
        define r where "r = (map_of [(''is_concert'', VBool False), (''is_musicvideo'', VBool True)] ++ dd)
                     (''poster_url'' \<mapsto> p, ''fanart_url'' \<mapsto> f)"
        have shape: "\<forall>k v. k \<noteq> ''poster_url'' \<longrightarrow> k \<noteq> ''fanart_url'' \<longrightarrow> dd k = Some v \<longrightarrow> r k = Some v"
          unfolding r_def by (intro allI impI) (rule fallback_shape)
        from res have res': "res = Inr (Some r)" by (simp only: r_def)
        from d Some have d': "fetch_discogs_data w ks artist title lg1 = (Some dd, lg2)" by simp
        from True have k1: "discogs_key ks \<noteq> []" and k2: "discogs_secret ks \<noteq> []" by simp_all
        have "\<exists>d r lgx lgy.
            discogs_key ks \<noteq> [] \<and> discogs_secret ks \<noteq> [] \<and>
            fetch_discogs_data w ks artist title lgx = (Some d, lgy) \<and> res = Inr (Some r) \<and>
            (\<forall>k v. k \<noteq> ''poster_url'' \<longrightarrow> k \<noteq> ''fanart_url'' \<longrightarrow> d k = Some v \<longrightarrow> r k = Some v)"
          by (intro exI conjI) (rule k1, rule k2, rule d', rule res', rule shape)
        then show ?thesis by (rule disjI2 [OF disjI2])
      qed
    qed
  qed
qed

lemma shape_title:
  "\<forall>k v. k \<noteq> ''poster_url'' \<longrightarrow> k \<noteq> ''fanart_url'' \<longrightarrow> d k = Some v \<longrightarrow> r k = Some v \<Longrightarrow>
     d ''title'' = Some v \<Longrightarrow> r ''title'' = Some v"
  by simp

lemma fallback_gate:
  assumes "fallback w ks artist title lg = (Inr (Some r), lg')"
  shows "\<exists>t. r ''title'' = Some (VStr t) \<and> 7 / 10 \<le> check_similarity title (Some t) (Some artist)"
  using fallback_cases [OF assms]
proof (elim disjE exE conjE)
  assume "Inr (Some r) = Inr None"
  then show ?thesis by simp
next
  fix d r' lgx lgy
  assume f: "fetch_theaudiodb_data w ks artist title lgx = (Some d, lgy)"
    and e: "Inr (Some r) = Inr (Some r')"
    and sh: "\<forall>k v. k \<noteq> ''poster_url'' \<longrightarrow> k \<noteq> ''fanart_url'' \<longrightarrow> d k = Some v \<longrightarrow> r' k = Some v"
  from fetch_theaudiodb_data_gate [OF f] obtain t where t: "d ''title'' = Some (VStr t)"
      "7 / 10 \<le> check_similarity title (Some t) (Some artist)" by (elim exE conjE)
  from e have "r' = r" by simp
  with shape_title [OF sh t(1)] have "r ''title'' = Some (VStr t)" by simp
  with t(2) show ?thesis by (intro exI conjI)
next
  fix d r' lgx lgy
  assume f: "fetch_discogs_data w ks artist title lgx = (Some d, lgy)"
    and e: "Inr (Some r) = Inr (Some r')"
    and sh: "\<forall>k v. k \<noteq> ''poster_url'' \<longrightarrow> k \<noteq> ''fanart_url'' \<longrightarrow> d k = Some v \<longrightarrow> r' k = Some v"
  from fetch_discogs_data_gate [OF f] obtain t where t: "d ''title'' = Some (VStr t)"
      "7 / 10 \<le> check_similarity title (Some t) (Some artist)" by (elim exE conjE)
  from e have "r' = r" by simp
  with shape_title [OF sh t(1)] have "r ''title'' = Some (VStr t)" by simp
  with t(2) show ?thesis by (intro exI conjI)
qed

lemma append_setlist_frame:
  "append_setlist tmdb_data setlist_text = Inr d \<Longrightarrow> k \<noteq> ''plot'' \<Longrightarrow> d k = tmdb_data k"
  by (auto simp: append_setlist_def split: option.splits if_splits pyval.splits)


lemma scrape_metadata_tmdb:
  assumes "tmdb_key ks \<noteq> []" "fetch_tmdb_data w ks artist title lg = (Some tmdb_data, lg1)"
  shows "scrape_metadata w ks artist title date lg =
     (case tmdb_setlist w ks artist date tmdb_data lg1 of
        (Inl e, lg2) \<Rightarrow> (Inl e, lg2)
      | (Inr setlist_text, lg2) \<Rightarrow>
          (case append_setlist tmdb_data setlist_text of
             Inl e \<Rightarrow> (Inl e, lg2)
           | Inr d \<Rightarrow> (Inr (Some d), lg2)))"
  using assms by (simp add: scrape_metadata_def)

lemma scrape_metadata_fallback:
  assumes "tmdb_key ks = [] \<or> fst (fetch_tmdb_data w ks artist title lg) = None"
  shows "scrape_metadata w ks artist title date lg =
     fallback w ks artist title
       (if tmdb_key ks \<noteq> [] then snd (fetch_tmdb_data w ks artist title lg) else lg)"
  using assms by (cases "fetch_tmdb_data w ks artist title lg") (auto simp: scrape_metadata_def)

lemma scrape_metadata_gate:
  assumes "scrape_metadata w ks artist title date lg = (Inr (Some r), lg')"
  shows "\<exists>t. r ''title'' = Some (VStr t) \<and> 7 / 10 \<le> check_similarity title (Some t) (Some artist)"
proof (cases "tmdb_key ks = [] \<or> fst (fetch_tmdb_data w ks artist title lg) = None")
  case True
  from assms scrape_metadata_fallback [OF True, of date] show ?thesis
    by (auto dest: fallback_gate)
next
  case False
  then obtain tmdb_data lg1 where f: "fetch_tmdb_data w ks artist title lg = (Some tmdb_data, lg1)"
    by (cases "fetch_tmdb_data w ks artist title lg") auto
  from False have k: "tmdb_key ks \<noteq> []" by simp
  from assms scrape_metadata_tmdb [OF k f, of date]
  obtain setlist_text where "append_setlist tmdb_data setlist_text = Inr r"
    by (auto split: prod.splits sum.splits)
  from append_setlist_frame [OF this, of "''title''"] have "r ''title'' = tmdb_data ''title''"
    by simp
  with fetch_tmdb_data_gate [OF f] show ?thesis by simp
qed

text \<open>
  C1.  Whatever the providers answer, a record that \<^verbatim>\<open>fetch_tmdb_data\<close>,
  \<^verbatim>\<open>fetch_theaudiodb_data\<close> or \<^verbatim>\<open>fetch_discogs_data\<close> returns, and a record that
  \<^verbatim>\<open>scrape_metadata\<close> returns, carries a title \<open>t\<close> (for Discogs the title cleaned of
  the artist prefix) with \<^verbatim>\<open>check_similarity(title, t, artist)\<close> at least 0.70.  And a
  first result whose title scores below 0.70 makes the adapter return \<^verbatim>\<open>None\<close>.
\<close>

theorem similarity_gate:
  "(fetch_tmdb_data w ks artist title lg = (Some r, lg') \<longrightarrow>
      (\<exists>t. r ''title'' = Some (VStr t) \<and> 7 / 10 \<le> check_similarity title (Some t) (Some artist))) \<and>
   (fetch_theaudiodb_data w ks artist title lg = (Some r, lg') \<longrightarrow>
      (\<exists>t. r ''title'' = Some (VStr t) \<and> 7 / 10 \<le> check_similarity title (Some t) (Some artist))) \<and>
   (fetch_discogs_data w ks artist title lg = (Some r, lg') \<longrightarrow>
      (\<exists>t. r ''title'' = Some (VStr t) \<and> 7 / 10 \<le> check_similarity title (Some t) (Some artist))) \<and>
   (scrape_metadata w ks artist title date lg = (Inr (Some r), lg') \<longrightarrow>
      (\<exists>t. r ''title'' = Some (VStr t) \<and> 7 / 10 \<le> check_similarity title (Some t) (Some artist))) \<and>
   (similarity title (dget_or movie ''title'' (VStr '''')) artist = Inr s \<and> s < 7 / 10 \<longrightarrow>
      tmdb_record artist title movie = Inr None) \<and>
   (similarity title (dget_or track ''strTrack'' (VStr '''')) artist = Inr s \<and> s < 7 / 10 \<longrightarrow>
      tadb_record artist title track = Inr None) \<and>
   (clean_discogs_title (dget_or obj ''title'' (VStr title)) artist = Inr discogs_title \<and>
    similarity title discogs_title artist = Inr s \<and> s < 7 / 10 \<longrightarrow>
      discogs_record artist title (obj, genres) = Inr None)"
proof (intro conjI impI)
  assume "fetch_tmdb_data w ks artist title lg = (Some r, lg')"
  then show "\<exists>t. r ''title'' = Some (VStr t) \<and> 7 / 10 \<le> check_similarity title (Some t) (Some artist)"
    by (rule fetch_tmdb_data_gate)
next
  assume "fetch_theaudiodb_data w ks artist title lg = (Some r, lg')"
  then show "\<exists>t. r ''title'' = Some (VStr t) \<and> 7 / 10 \<le> check_similarity title (Some t) (Some artist)"
    by (rule fetch_theaudiodb_data_gate)
next
  assume "fetch_discogs_data w ks artist title lg = (Some r, lg')"
  then show "\<exists>t. r ''title'' = Some (VStr t) \<and> 7 / 10 \<le> check_similarity title (Some t) (Some artist)"
    by (rule fetch_discogs_data_gate)
next
  assume "scrape_metadata w ks artist title date lg = (Inr (Some r), lg')"
  then show "\<exists>t. r ''title'' = Some (VStr t) \<and> 7 / 10 \<le> check_similarity title (Some t) (Some artist)"
    by (rule scrape_metadata_gate)
next
  assume "similarity title (dget_or movie ''title'' (VStr '''')) artist = Inr s \<and> s < 7 / 10"
  then show "tmdb_record artist title movie = Inr None"
    by (simp add: tmdb_record_def)
next
  assume "similarity title (dget_or track ''strTrack'' (VStr '''')) artist = Inr s \<and> s < 7 / 10"
  then show "tadb_record artist title track = Inr None"
    by (simp add: tadb_record_def)
next
  assume "clean_discogs_title (dget_or obj ''title'' (VStr title)) artist = Inr discogs_title \<and>
    similarity title discogs_title artist = Inr s \<and> s < 7 / 10"
  then show "discogs_record artist title (obj, genres) = Inr None"
    by (simp add: discogs_record_def)
qed


text \<open>The gate at work: the concert film on TMDB, the track on TheAudioDB and the
  release on Discogs are accepted, three other works are rejected.\<close>

lemma some_result: "\<not> Option.is_none (fst x) \<Longrightarrow> x = (Some (the (fst x)), snd x)"
  by (cases x) (auto simp: Option.is_none_def)

lemma inr_some_result:
  "(case fst x of Inr (Some d) \<Rightarrow> True | _ \<Rightarrow> False) \<Longrightarrow>
     x = (Inr (Some (the (projr (fst x)))), snd x)"
  by (cases x) (auto split: sum.splits option.splits)

theorem similarity_gate_witness:
  "(\<exists>t. the (fst (fetch_tmdb_data concert_world all_keys ''Metallica'' ''Master of Puppets'' [])) ''title''
          = Some (VStr t) \<and>
        7 / 10 \<le> check_similarity ''Master of Puppets'' (Some t) (Some ''Metallica'')) \<and>
   (\<exists>t. the (fst (fetch_theaudiodb_data video_world all_keys ''Metallica'' ''One'' [])) ''title''
          = Some (VStr t) \<and>
        7 / 10 \<le> check_similarity ''One'' (Some t) (Some ''Metallica'')) \<and>
   (\<exists>t. the (fst (fetch_discogs_data video_world all_keys ''Metallica'' ''One'' [])) ''title''
          = Some (VStr t) \<and>
        7 / 10 \<le> check_similarity ''One'' (Some t) (Some ''Metallica'')) \<and>
   (\<exists>t. the (projr (fst (scrape_metadata video_world all_keys ''Metallica'' ''One'' None []))) ''title''
          = Some (VStr t) \<and>
        7 / 10 \<le> check_similarity ''One'' (Some t) (Some ''Metallica'')) \<and>
   tmdb_record ''Metallica'' ''One'' other_movie = Inr None \<and>
   tadb_record ''Metallica'' ''One'' other_track = Inr None \<and>
   discogs_record ''Metallica'' ''One'' other_release = Inr None"
proof -
  let ?f1 = "fetch_tmdb_data concert_world all_keys ''Metallica'' ''Master of Puppets'' []"
  let ?f2 = "fetch_theaudiodb_data video_world all_keys ''Metallica'' ''One'' []"
  let ?f3 = "fetch_discogs_data video_world all_keys ''Metallica'' ''One'' []"
  let ?f4 = "scrape_metadata video_world all_keys ''Metallica'' ''One'' None []"
  have "\<not> Option.is_none (fst ?f1)" by code_simp
  then have e1: "?f1 = (Some (the (fst ?f1)), snd ?f1)" by (rule some_result)
  have "\<not> Option.is_none (fst ?f2)" by code_simp
  then have e2: "?f2 = (Some (the (fst ?f2)), snd ?f2)" by (rule some_result)
  have "\<not> Option.is_none (fst ?f3)" by code_simp
  then have e3: "?f3 = (Some (the (fst ?f3)), snd ?f3)" by (rule some_result)
  have "case fst ?f4 of Inr (Some d) \<Rightarrow> True | _ \<Rightarrow> False" by code_simp
  then have e4: "?f4 = (Inr (Some (the (projr (fst ?f4)))), snd ?f4)" by (rule inr_some_result)
  have s5: "similarity ''One'' (dget_or other_movie ''title'' (VStr '''')) ''Metallica'' = Inr (6 / 23) \<and>
            (6 / 23 :: rat) < 7 / 10"
    by code_simp
  have s6: "similarity ''One'' (dget_or other_track ''strTrack'' (VStr '''')) ''Metallica'' = Inr (6 / 23) \<and>
            (6 / 23 :: rat) < 7 / 10"
    by code_simp
  have s7: "clean_discogs_title (dget_or (fst other_release) ''title'' (VStr ''One'')) ''Metallica''
              = Inr (VStr ''Ride The Lightning'') \<and>
            similarity ''One'' (VStr ''Ride The Lightning'') ''Metallica'' = Inr (2 / 21) \<and>
            (2 / 21 :: rat) < 7 / 10"
    by code_simp
  have r: "other_release = (fst other_release, snd other_release)" by simp
  note g1 = similarity_gate [where w = concert_world and ks = all_keys and artist = "''Metallica''"
      and title = "''Master of Puppets''" and lg = "[]" and r = "the (fst ?f1)" and lg' = "snd ?f1"]
  note g2 = similarity_gate [where w = video_world and ks = all_keys and artist = "''Metallica''"
      and title = "''One''" and lg = "[]" and r = "the (fst ?f2)" and lg' = "snd ?f2"]
  note g3 = similarity_gate [where w = video_world and ks = all_keys and artist = "''Metallica''"
      and title = "''One''" and lg = "[]" and r = "the (fst ?f3)" and lg' = "snd ?f3"]
  note g4 = similarity_gate [where w = video_world and ks = all_keys and artist = "''Metallica''"
      and title = "''One''" and lg = "[]" and r = "the (projr (fst ?f4))" and lg' = "snd ?f4"
      and date = None]
  note g5 = similarity_gate [where artist = "''Metallica''" and title = "''One''"
      and movie = other_movie and track = other_track and obj = "fst other_release"
      and genres = "snd other_release" and s = "6 / 23"]
  note g7 = similarity_gate [where artist = "''Metallica''" and title = "''One''"
      and obj = "fst other_release" and genres = "snd other_release"
      and discogs_title = "VStr ''Ride The Lightning''" and s = "2 / 21"]
  have c1: "\<exists>t. the (fst ?f1) ''title'' = Some (VStr t) \<and>
        7 / 10 \<le> check_similarity ''Master of Puppets'' (Some t) (Some ''Metallica'')"
    by (rule mp [OF conjunct1 [OF g1]]) (rule e1)
  have c2: "\<exists>t. the (fst ?f2) ''title'' = Some (VStr t) \<and>
        7 / 10 \<le> check_similarity ''One'' (Some t) (Some ''Metallica'')"
    by (rule mp [OF conjunct1 [OF conjunct2 [OF g2]]]) (rule e2)
  have c3: "\<exists>t. the (fst ?f3) ''title'' = Some (VStr t) \<and>
        7 / 10 \<le> check_similarity ''One'' (Some t) (Some ''Metallica'')"
    by (rule mp [OF conjunct1 [OF conjunct2 [OF conjunct2 [OF g3]]]]) (rule e3)
  have c4: "\<exists>t. the (projr (fst ?f4)) ''title'' = Some (VStr t) \<and>
        7 / 10 \<le> check_similarity ''One'' (Some t) (Some ''Metallica'')"
    by (rule mp [OF conjunct1 [OF conjunct2 [OF conjunct2 [OF conjunct2 [OF g4]]]]])
       (rule e4)
  have c5: "tmdb_record ''Metallica'' ''One'' other_movie = Inr None"
    by (rule mp [OF conjunct1 [OF conjunct2 [OF conjunct2 [OF conjunct2 [OF conjunct2 [OF g5]]]]]])
       (rule s5)
  have c6: "tadb_record ''Metallica'' ''One'' other_track = Inr None"
    by (rule mp [OF conjunct1 [OF conjunct2 [OF conjunct2 [OF conjunct2 [OF conjunct2 [OF conjunct2 [OF g5]]]]]]])
       (rule s6)
  have c7: "discogs_record ''Metallica'' ''One'' (fst other_release, snd other_release) = Inr None"
    by (rule mp [OF conjunct2 [OF conjunct2 [OF conjunct2 [OF conjunct2 [OF conjunct2 [OF conjunct2 [OF g7]]]]]]])
       (rule s7)
  from c1 c2 c3 c4 c5 c6 c7 show ?thesis
    by simp
qed

subsection \<open>Absent credentials\<close>

text \<open>The adapters of Fanart.tv and setlist.fm test their key themselves and return
  \<^verbatim>\<open>None\<close> without a request when it is absent.\<close>

lemma fetch_fanart_data_no_key:
  "fanart_api_key ks = [] \<Longrightarrow> fetch_fanart_data w ks mbid lg = (None, lg @ [Call Fetch_fanart_data])"
  by (simp add: fetch_fanart_data_def)

lemma fetch_setlistfm_by_date_no_key:
  "setlistfm_key ks = [] \<Longrightarrow>
     fetch_setlistfm_by_date w ks artist date_str lg = (None, lg @ [Call Fetch_setlistfm_by_date])"
  by (simp add: fetch_setlistfm_by_date_def)

lemma fetch_setlistfm_by_tour_no_key:
  "setlistfm_key ks = [] \<Longrightarrow>
     fetch_setlistfm_by_tour w ks artist tour_name year lg = (None, lg @ [Call Fetch_setlistfm_by_tour])"
  by (simp add: fetch_setlistfm_by_tour_def)

text \<open>
  C6 at two inputs.  \<^verbatim>\<open>fetch_theaudiodb_data\<close> has no test of its key and
  \<^verbatim>\<open>scrape_metadata\<close> calls it without one (\<^verbatim>\<open>search_global\<close> guards the same request by
  \<^verbatim>\<open>if self.tadb_key:\<close>): with every credential empty the request to TheAudioDB is
  sent all the same.  And the recovery of the Discogs poster tests \<^verbatim>\<open>self.discogs_key\<close>
  alone, where the search step and the enrichment test key and secret: with the key
  and no secret, after TheAudioDB delivered a record without poster, the request to
  Discogs is sent.
\<close>

theorem missing_key_still_requests:
  "Request TheAudioDB \<in> set (snd (scrape_metadata quiet_world no_keys ''Metallica'' ''One'' None [])) \<and>
   Request Discogs \<in> set (snd (scrape_metadata video_world discogs_key_only ''Metallica'' ''One'' None []))"
  by code_simp

subsection \<open>Exhaustion\<close>

text \<open>
  C5.  When every adapter of the waterfall that holds its credentials returns
  \<^verbatim>\<open>None\<close> for the query, whenever it is asked (no result, or a candidate the
  similarity gate rejects), \<^verbatim>\<open>scrape_metadata\<close> returns \<^verbatim>\<open>None\<close>.  Nothing is assumed
  of Fanart.tv: images alone make no record.
\<close>

theorem waterfall_exhaustion:
  assumes tm: "tmdb_key ks \<noteq> [] \<longrightarrow> (\<forall>lg. fst (fetch_tmdb_data w ks artist title lg) = None)"
    and ta: "\<forall>lg. fst (fetch_theaudiodb_data w ks artist title lg) = None"
    and di: "discogs_key ks \<noteq> [] \<and> discogs_secret ks \<noteq> [] \<longrightarrow>
               (\<forall>lg. fst (fetch_discogs_data w ks artist title lg) = None)"
  shows "fst (scrape_metadata w ks artist title date lg) = Inr None"
proof -
  from tm have "tmdb_key ks = [] \<or> fst (fetch_tmdb_data w ks artist title lg) = None"
    by (cases "tmdb_key ks = []") simp_all
  from scrape_metadata_fallback [OF this]
  obtain lg0 where s: "scrape_metadata w ks artist title date lg = fallback w ks artist title lg0"
    by blast
  obtain res lg' where f: "fallback w ks artist title lg0 = (res, lg')"
    by (cases "fallback w ks artist title lg0")
  from fallback_cases [OF f] have "res = Inr None"
  proof (elim disjE exE conjE)
    fix d r lgx lgy
    assume "fetch_theaudiodb_data w ks artist title lgx = (Some d, lgy)"
    with ta have False by (metis fst_conv option.distinct(1))
    then show ?thesis ..
  next
    fix d r lgx lgy
    assume "discogs_key ks \<noteq> []" "discogs_secret ks \<noteq> []"
      "fetch_discogs_data w ks artist title lgx = (Some d, lgy)"
    with di have False by (metis fst_conv option.distinct(1))
    then show ?thesis ..
  qed
  with s f show ?thesis by simp
qed

text \<open>Three providers that answer with another work, and Fanart.tv with images for
  the artist: every candidate is rejected and nothing is returned.\<close>

lemma inr_none_result: "(case x of Inr None \<Rightarrow> True | _ \<Rightarrow> False) \<Longrightarrow> x = Inr None"
  by (auto split: sum.splits option.splits)

lemma mismatch_tmdb: "tmdb_record ''Metallica'' ''One'' other_movie = Inr None"
  by (rule inr_none_result) code_simp

lemma mismatch_tadb: "tadb_record ''Metallica'' ''One'' other_track = Inr None"
  by (rule inr_none_result) code_simp

lemma mismatch_discogs: "discogs_record ''Metallica'' ''One'' other_release = Inr None"
  by (rule inr_none_result) code_simp

theorem waterfall_exhaustion_witness:
  "fst (scrape_metadata mismatch_world all_keys ''Metallica'' ''One'' None []) = Inr None"
proof -
  have h1: "tmdb_key all_keys \<noteq> [] \<longrightarrow>
      (\<forall>lg. fst (fetch_tmdb_data mismatch_world all_keys ''Metallica'' ''One'' lg) = None)"
    by (simp add: fetch_tmdb_data_def mismatch_world_def quiet_world_def Let_def mismatch_tmdb or_none_def)
  have h2: "\<forall>lg. fst (fetch_theaudiodb_data mismatch_world all_keys ''Metallica'' ''One'' lg) = None"
    by (simp add: fetch_theaudiodb_data_def mismatch_world_def quiet_world_def Let_def mismatch_tadb or_none_def)
  have h3: "discogs_key all_keys \<noteq> [] \<and> discogs_secret all_keys \<noteq> [] \<longrightarrow>
      (\<forall>lg. fst (fetch_discogs_data mismatch_world all_keys ''Metallica'' ''One'' lg) = None)"
    by (simp add: fetch_discogs_data_def mismatch_world_def quiet_world_def Let_def mismatch_discogs or_none_def)
  from waterfall_exhaustion [OF h1 h2 h3] show ?thesis .
qed

subsection \<open>The short circuit after a TMDB hit\<close>












section \<open>Properties of the enrichment pipeline\<close>

text \<open>What each step of \<^verbatim>\<open>deep_enrich_data\<close> leaves as it is.\<close>

lemma fill_missing_keep:
  "truthy (dget e k) \<or> k \<noteq> k0 \<Longrightarrow> fill_missing e k0 src k' k = e k"
  by (auto simp: fill_missing_def)

lemma fill_missing_truthy:
  "truthy (dget e k) \<Longrightarrow> truthy (dget (fill_missing e k0 src k') k)"
  by (auto simp: fill_missing_def dget_def dget_or_def)

lemma discogs_enrichment_keep:
  assumes "discogs_enrichment w ks a t e lg = (e1, lg1)"
    and "truthy (dget e k) \<or> k \<notin> set [''year'', ''album'', ''poster_url'']"
  shows "e1 k = e k"
proof -
  have fm: "fill_missing (fill_missing (fill_missing e ''year'' d ''year'') ''album'' d ''title'')
              ''poster_url'' d ''poster_url'' k = e k" for d
  proof (cases "truthy (dget e k)")
    case True
    then show ?thesis
      by (simp add: fill_missing_keep fill_missing_truthy)
  next
    case False
    with assms(2) have "k \<noteq> ''year''" "k \<noteq> ''album''" "k \<noteq> ''poster_url''" by simp_all
    then show ?thesis by (simp add: fill_missing_keep)
  qed
  from assms(1) show ?thesis
    by (auto simp: discogs_enrichment_def fm split: if_splits prod.splits option.splits)
qed



lemma setlistfm_enrichment_keep:
  "setlistfm_enrichment w ks a t y e lg = (Inr e1, lg1) \<Longrightarrow> e1 = e"
  by (auto simp: setlistfm_enrichment_def Let_def
        split: if_splits pyval.splits prod.splits option.splits)

lemma fanart_enrichment_keep:
  assumes "fanart_enrichment w ks e lg = (e1, lg1)"
    and "truthy (dget e k) \<or> k \<notin> set [''poster_url'', ''fanart_url'']"
  shows "e1 k = e k"
  using assms
  by (auto simp: fanart_enrichment_def Let_def dget_def dget_or_def
        split: if_splits prod.splits option.splits)

lemma deep_enrich_data_cases:
  assumes "deep_enrich_data w ks x lg = (Inr y, lg')"
  shows "y = x \<or>
     (\<exists>a t e1 lg1 e2 lg2 e3 lg3.
        discogs_enrichment w ks a t x lg = (e1, lg1) \<and>
        wikipedia_enrichment w a t e1 lg1 = (Inr e2, lg2) \<and>
        setlistfm_enrichment w ks a t (dget_or x ''year'' (VStr '''')) e2 lg2 = (Inr e3, lg3) \<and>
        fanart_enrichment w ks e3 lg3 = (y, lg'))"
  using assms
  by (auto simp: deep_enrich_data_def Let_def
        split: if_splits pyval.splits prod.splits sum.splits)

lemma plot_missing_or_short_cong:
  "e1 ''plot'' = e ''plot'' \<Longrightarrow> plot_missing_or_short e1 = plot_missing_or_short e"
  by (simp add: plot_missing_or_short_def dget_def dget_or_def)





text \<open>The record with the plot of 76 characters in the same world: Wikipedia is not
  asked and the plot is returned as it was.\<close>

lemma inr_result: "(case fst x of Inr y \<Rightarrow> True | Inl e \<Rightarrow> False) \<Longrightarrow> x = (Inr (projr (fst x)), snd x)"
  by (cases x) (auto split: sum.splits)


subsection \<open>The setlist step\<close>

text \<open>A plot that \<^verbatim>\<open>deep_enrich_data\<close> returns is the plot of the record or a summary
  that Wikipedia delivered.\<close>

lemma wiki_search_origin:
  "wiki_search w queries lg = (Some s, lg') \<Longrightarrow> \<exists>n q. wiki_api w n q = Reply (Some s)"
proof (induction queries arbitrary: lg)
  case Nil
  then show ?case by simp
next
  case (Cons q queries)
  show ?case
  proof (cases "wiki_api w (length lg) q")
    case Failure
    with Cons.prems show ?thesis by simp
  next
    case (Reply r)
    show ?thesis
    proof (cases r)
      case None
      with Reply Cons.prems have "wiki_search w queries (lg @ [Request Wikipedia]) = (Some s, lg')"
        by simp
      then show ?thesis by (rule Cons.IH)
    next
      case (Some summary)
      show ?thesis
      proof (cases "\<not> is_disambiguation summary \<and> has_keyword summary")
        case True
        with Reply Some Cons.prems have "summary = s" by simp
        with Reply Some have "wiki_api w (length lg) q = Reply (Some s)" by simp
        then show ?thesis by (intro exI)
      next
        case False
        with Reply Some Cons.prems have "wiki_search w queries (lg @ [Request Wikipedia]) = (Some s, lg')"
          by (auto split: if_splits)
        then show ?thesis by (rule Cons.IH)
      qed
    qed
  qed
qed

lemma wikipedia_enrichment_plot:
  assumes "wikipedia_enrichment w a t e lg = (Inr e1, lg1)"
  shows "e1 ''plot'' = e ''plot'' \<or>
         (wikipedia_available w \<and> plot_missing_or_short e = Inr True \<and>
          (\<exists>s n q. wiki_api w n q = Reply (Some s) \<and> e1 ''plot'' = Some (VStr s)))"
proof (cases "wikipedia_available w \<and> plot_missing_or_short e = Inr True")
  case False
  then have "\<not> wikipedia_available w \<or> plot_missing_or_short e = Inr False \<or>
             (\<exists>x. plot_missing_or_short e = Inl x)"
    by (cases "plot_missing_or_short e") auto
  with assms have "e1 = e"
    by (auto simp: wikipedia_enrichment_def split: if_splits)
  then show ?thesis by simp
next
  case True
  let ?queries = "[a @ '' '' @ t @ '' (song)'', t @ '' (song)'', t]"
  obtain r lg2 where ws: "wiki_search w ?queries lg = (r, lg2)"
    by (cases "wiki_search w ?queries lg")
  show ?thesis
  proof (cases r)
    case None
    with assms True ws have "e1 = e" by (simp add: wikipedia_enrichment_def)
    then show ?thesis by simp
  next
    case (Some s)
    with assms True ws have "e1 = e(''plot'' \<mapsto> VStr s)" by (simp add: wikipedia_enrichment_def)
    then have p: "e1 ''plot'' = Some (VStr s)" by simp
    from ws Some have "wiki_search w ?queries lg = (Some s, lg2)" by simp
    from wiki_search_origin [OF this] obtain n q where "wiki_api w n q = Reply (Some s)"
      by (elim exE)
    with p have "\<exists>s n q. wiki_api w n q = Reply (Some s) \<and> e1 ''plot'' = Some (VStr s)"
      by (intro exI conjI)
    with True show ?thesis by simp
  qed
qed

lemma deep_enrich_data_plot:
  assumes run: "deep_enrich_data w ks x lg = (Inr y, lg')"
  shows "y ''plot'' = x ''plot'' \<or>
         (wikipedia_available w \<and> plot_missing_or_short x = Inr True \<and>
          (\<exists>s n q. wiki_api w n q = Reply (Some s) \<and> y ''plot'' = Some (VStr s)))"
  using deep_enrich_data_cases [OF run]
proof (elim disjE exE conjE)
  assume "y = x"
  then show ?thesis by simp
next
  fix a t e1 lg1 e2 lg2 e3 lg3
  assume d: "discogs_enrichment w ks a t x lg = (e1, lg1)"
    and wi: "wikipedia_enrichment w a t e1 lg1 = (Inr e2, lg2)"
    and s: "setlistfm_enrichment w ks a t (dget_or x ''year'' (VStr '''')) e2 lg2 = (Inr e3, lg3)"
    and f: "fanart_enrichment w ks e3 lg3 = (y, lg')"
  have 1: "e1 ''plot'' = x ''plot''" by (rule discogs_enrichment_keep [OF d]) simp
  then have m: "plot_missing_or_short e1 = plot_missing_or_short x"
    by (rule plot_missing_or_short_cong)
  have 3: "e3 = e2" by (rule setlistfm_enrichment_keep [OF s])
  have 4: "y ''plot'' = e3 ''plot''" by (rule fanart_enrichment_keep [OF f]) simp
  from wikipedia_enrichment_plot [OF wi] 1 m 3 4 show ?thesis by simp
qed

lemma setlistfm_enrichment_marker:
  assumes "e ''plot'' = Some (VStr p)" and "contains p ''[SETLIST]'' \<or> contains p ''[SCALETTA''"
  shows "setlistfm_enrichment w ks a t yr e lg = (Inr e, lg)"
  using assms by (auto simp: setlistfm_enrichment_def dget_or_def Let_def)

lemma plot_short_length:
  "x ''plot'' = Some (VStr p) \<Longrightarrow> plot_missing_or_short x = Inr True \<Longrightarrow> length p < 50"
  by (auto simp: plot_missing_or_short_def dget_def dget_or_def split: if_splits)

text \<open>
  C8.  Let the plot of the record \<open>x\<close> hold one of the markers \<^verbatim>\<open>[SETLIST]\<close> and
  \<^verbatim>\<open>[SCALETTA\<close>.  Then the setlist step returns the record as it is without calling
  an adapter; the plot that \<^verbatim>\<open>deep_enrich_data\<close> returns is the plot of \<open>x\<close>, or, when
  Wikipedia is available and the plot is shorter than 50 characters, a summary of
  Wikipedia that replaces it; and when the plot is not so replaced, enriching twice
  returns the plot of enriching once, which is the plot of \<open>x\<close>: no block is appended.
\<close>

theorem setlist_append_idempotent:
  assumes "x ''plot'' = Some (VStr p)"
    and "contains p ''[SETLIST]'' \<or> contains p ''[SCALETTA''"
  shows "setlistfm_enrichment w ks a t yr x lg = (Inr x, lg) \<and>
         (\<forall>y lg1. deep_enrich_data w ks x lg = (Inr y, lg1) \<longrightarrow>
            y ''plot'' = x ''plot'' \<or>
            (wikipedia_available w \<and> length p < 50 \<and>
             (\<exists>s n q. wiki_api w n q = Reply (Some s) \<and> y ''plot'' = Some (VStr s)))) \<and>
         (\<not> wikipedia_available w \<or> 50 \<le> length p \<longrightarrow>
            (\<forall>y lg1 z lg2. deep_enrich_data w ks x lg = (Inr y, lg1) \<and>
                            deep_enrich_data w ks y lg1 = (Inr z, lg2) \<longrightarrow>
               y ''plot'' = x ''plot'' \<and> z ''plot'' = y ''plot''))"
proof -
  have once: "y ''plot'' = x' ''plot'' \<or>
            (wikipedia_available w \<and> length p < 50 \<and>
             (\<exists>s n q. wiki_api w n q = Reply (Some s) \<and> y ''plot'' = Some (VStr s)))"
    if "deep_enrich_data w ks x' lg0 = (Inr y, lg1)" "x' ''plot'' = Some (VStr p)" for x' y lg0 lg1
  proof -
    from deep_enrich_data_plot [OF that(1)] show ?thesis
    proof (elim disjE conjE)
      assume "y ''plot'' = x' ''plot''"
      then show ?thesis by (rule disjI1)
    next
      assume av: "wikipedia_available w" and sh: "plot_missing_or_short x' = Inr True"
        and ex: "\<exists>s n q. wiki_api w n q = Reply (Some s) \<and> y ''plot'' = Some (VStr s)"
      from plot_short_length [OF that(2) sh] have "length p < 50" .
      with av ex show ?thesis by (intro disjI2 conjI)
    qed
  qed
  have c1: "setlistfm_enrichment w ks a t yr x lg = (Inr x, lg)"
    using assms by (rule setlistfm_enrichment_marker)
  have c2: "\<forall>y lg1. deep_enrich_data w ks x lg = (Inr y, lg1) \<longrightarrow>
            y ''plot'' = x ''plot'' \<or>
            (wikipedia_available w \<and> length p < 50 \<and>
             (\<exists>s n q. wiki_api w n q = Reply (Some s) \<and> y ''plot'' = Some (VStr s)))"
  proof (intro allI impI)
    fix y lg1
    assume r: "deep_enrich_data w ks x lg = (Inr y, lg1)"
    from once [OF r assms(1)] show "y ''plot'' = x ''plot'' \<or>
            (wikipedia_available w \<and> length p < 50 \<and>
             (\<exists>s n q. wiki_api w n q = Reply (Some s) \<and> y ''plot'' = Some (VStr s)))" .
  qed
  have c3: "\<not> wikipedia_available w \<or> 50 \<le> length p \<longrightarrow>
            (\<forall>y lg1 z lg2. deep_enrich_data w ks x lg = (Inr y, lg1) \<and>
                            deep_enrich_data w ks y lg1 = (Inr z, lg2) \<longrightarrow>
               y ''plot'' = x ''plot'' \<and> z ''plot'' = y ''plot'')"
  proof (intro allI impI, elim conjE)
    fix y lg1 z lg2
    assume long: "\<not> wikipedia_available w \<or> 50 \<le> length p"
      and r1: "deep_enrich_data w ks x lg = (Inr y, lg1)"
      and r2: "deep_enrich_data w ks y lg1 = (Inr z, lg2)"
    from once [OF r1 assms(1)] long have y: "y ''plot'' = x ''plot''" by auto
    with assms(1) have yp: "y ''plot'' = Some (VStr p)" by simp
    from once [OF r2 yp] long have "z ''plot'' = y ''plot''" by auto
    with y show "y ''plot'' = x ''plot'' \<and> z ''plot'' = y ''plot''" by (rule conjI)
  qed
  from c1 c2 c3 show ?thesis by (intro conjI)
qed

text \<open>The record of the concert film, enriched twice in a world in which setlist.fm
  and Wikipedia answer: the setlist step does nothing and the plot stays as it is.\<close>

theorem setlist_append_idempotent_witness:
  "setlistfm_enrichment concert_wiki_world all_keys ''Metallica'' ''Metallica - Master of Puppets''
     (VStr ''1989'') puppets_record [] = (Inr puppets_record, []) \<and>
   projr (fst (deep_enrich_data concert_wiki_world all_keys puppets_record [])) ''plot''
     = puppets_record ''plot'' \<and>
   projr (fst (deep_enrich_data concert_wiki_world all_keys
                 (projr (fst (deep_enrich_data concert_wiki_world all_keys puppets_record [])))
                 (snd (deep_enrich_data concert_wiki_world all_keys puppets_record [])))) ''plot''
     = projr (fst (deep_enrich_data concert_wiki_world all_keys puppets_record [])) ''plot''"
proof -
  let ?r1 = "deep_enrich_data concert_wiki_world all_keys puppets_record []"
  let ?r2 = "deep_enrich_data concert_wiki_world all_keys (projr (fst ?r1)) (snd ?r1)"
  have p: "puppets_record ''plot'' = Some (VStr puppets_plot)" by code_simp
  have m: "contains puppets_plot ''[SETLIST]'' \<or> contains puppets_plot ''[SCALETTA''" by code_simp
  have l: "\<not> wikipedia_available concert_wiki_world \<or> 50 \<le> length puppets_plot" by code_simp
  have "case fst ?r1 of Inr y \<Rightarrow> True | Inl e \<Rightarrow> False" by code_simp
  then have e1: "?r1 = (Inr (projr (fst ?r1)), snd ?r1)" by (rule inr_result)
  have "case fst ?r2 of Inr y \<Rightarrow> True | Inl e \<Rightarrow> False" by code_simp
  then have e2: "?r2 = (Inr (projr (fst ?r2)), snd ?r2)" by (rule inr_result)
  note t = setlist_append_idempotent [where x = puppets_record and p = puppets_plot
      and w = concert_wiki_world and ks = all_keys
      and a = "''Metallica''" and t = "''Metallica - Master of Puppets''" and yr = "VStr ''1989''"
      and lg = "[]", OF p m]
  from conjunct2 [OF conjunct2 [OF t]] l e1 e2
  have "projr (fst ?r1) ''plot'' = puppets_record ''plot'' \<and>
        projr (fst ?r2) ''plot'' = projr (fst ?r1) ''plot''"
    by blast
  with conjunct1 [OF t] show ?thesis by (rule conjI)
qed

end
